theory Spec2Isabelle
  imports Complex_Main
begin

section \<open>Data model\<close>

text \<open>
  Modelled from the spec: the declarations of package \<open>models\<close> (\<open>WindowPosition\<close>,
  \<open>SnapPosition\<close>, \<open>SnapEdge\<close>, \<open>WindowInfo\<close>) are not among the sources; their fields
  and constants are the ones \<open>window_snap_service.go\<close> reads and writes, and the data
  model of the specification names the same ones.

  Go's \<open>int\<close> (64 bits on the platforms the application is built for) is modelled as
  \<open>int\<close>. Pixel coordinates and sizes delivered by the windowing layer are 32-bit values,
  so the sums and differences the service forms of them do not wrap. Their squares can:
  the sum of squares in the corner distance is taken modulo \<open>2^64\<close> (\<open>wrapInt\<close>).
  A \<open>float64\<close> is modelled as a real number. The service uses floats in three places:
  the product of the primary width with 0.025 (truncated to an integer and clamped to
  \<open>[8, 40]\<close>), absolute values of integers, and square roots of integers compared with at
  most \<open>1.5 * 40\<close>; in each of them the IEEE result orders as the exact real one does.
  The square root of a negative number is NaN, which no comparison accepts.
  A \<open>time.Time\<close> is an integer count of nanoseconds, a \<open>time.Duration\<close> a difference of
  two of them.
\<close>

record WindowPosition =
  X :: int
  Y :: int

type_synonym SnapPosition = WindowPosition

datatype SnapEdge =
    SnapEdgeNone
  | SnapEdgeTop
  | SnapEdgeBottom
  | SnapEdgeLeft
  | SnapEdgeRight
  | SnapEdgeTopLeft
  | SnapEdgeTopRight
  | SnapEdgeBottomLeft
  | SnapEdgeBottomRight

type_synonym instant = int

record WindowInfo =
  DocumentID :: int
  IsSnapped :: bool
  SnapOffset :: SnapPosition
  SnapEdge :: SnapEdge
  LastPos :: WindowPosition
  MoveTime :: instant

definition millisecond :: int where
  "millisecond = 1000000"

definition debounceThreshold :: int where
  "debounceThreshold = 30 * millisecond"

definition dragDetectionThreshold :: int where
  "dragDetectionThreshold = 40 * millisecond"

text \<open>
  The state is the service's fields together with the part of the windowing layer the
  service reads and writes: whether the primary window exists and its geometry
  (\<open>mainWindow\<close>), and the position and size of every document window. The caller
  creates one window per document and names it by the document id, so a document window
  is identified with its document id, and \<open>windowRefs\<close> is the set of ids that have a
  window reference. The logger, the mutex, the configuration service and the listener
  handles (\<open>mainMoveUnhook\<close>, \<open>windowMoveUnhooks\<close>, \<open>cancelObserver\<close>) decide only which
  events are delivered; events are explicit calls of the handlers here.
\<close>

record system =
  mainWindow :: "(WindowPosition \<times> (int \<times> int)) option"
  winPosition :: "int \<Rightarrow> WindowPosition"
  winSize :: "int \<Rightarrow> int \<times> int"
  snapEnabled :: bool
  baseThresholdRatio :: real
  minThreshold :: int
  maxThreshold :: int
  lastMainWindowPos :: WindowPosition
  lastMainWindowSize :: "int \<times> int"
  managedWindows :: "int \<rightharpoonup> WindowInfo"
  windowRefs :: "int set"
  windowSizeCache :: "int \<rightharpoonup> int \<times> int"
  isUpdatingPosition :: "int \<rightharpoonup> bool"

text \<open>The value of an \<open>interface{}\<close> delivered by the configuration watcher.\<close>

datatype any_value =
    AnyNil
  | AnyBool bool
  | AnyInt int
  | AnyFloat real
  | AnyString string

text \<open>
  Modelled from the spec: the configuration type is not among the sources; the service
  reads \<open>config.General.EnableWindowSnap\<close> only.
\<close>

record GeneralConfig =
  EnableWindowSnap :: bool

record AppConfig =
  General :: GeneralConfig

section \<open>Construction and configuration\<close>

text \<open>
  \<open>NewWindowSnapService\<close>: the argument is the result of \<open>configService.GetConfig()\<close>,
  \<open>Inl\<close> the error; the remaining arguments are the windowing layer at that moment.
\<close>

definition NewWindowSnapService ::
  "string + AppConfig \<Rightarrow> (WindowPosition \<times> (int \<times> int)) option \<Rightarrow> (int \<Rightarrow> WindowPosition)
     \<Rightarrow> (int \<Rightarrow> int \<times> int) \<Rightarrow> system" where
  "NewWindowSnapService cfg mw wp wsz =
     (let snapEnabled0 = (case cfg of Inl err \<Rightarrow> True | Inr config \<Rightarrow> EnableWindowSnap (General config))
      in \<lparr> mainWindow = mw, winPosition = wp, winSize = wsz,
           snapEnabled = snapEnabled0,
           baseThresholdRatio = 0.025,
           minThreshold = 8,
           maxThreshold = 40,
           lastMainWindowPos = \<lparr>X = 0, Y = 0\<rparr>,
           lastMainWindowSize = (0, 0),
           managedWindows = Map.empty,
           windowRefs = {},
           windowSizeCache = Map.empty,
           isUpdatingPosition = Map.empty \<rparr>)"

definition SetSnapEnabled :: "bool \<Rightarrow> system \<Rightarrow> system" where
  "SetSnapEnabled enabled s =
     (if snapEnabled s = enabled then s
      else let s1 = s\<lparr>snapEnabled := enabled\<rparr>
           in if \<not> enabled
              then s1\<lparr>managedWindows := (\<lambda>documentID.
                        map_option (\<lambda>windowInfo.
                            if IsSnapped windowInfo
                            then windowInfo\<lparr>IsSnapped := False, SnapEdge := SnapEdgeNone\<rparr>
                            else windowInfo)
                          (managedWindows s1 documentID))\<rparr>
              else s1)"

definition OnWindowSnapConfigChanged :: "bool \<Rightarrow> system \<Rightarrow> system" where
  "OnWindowSnapConfigChanged enabled s = SetSnapEnabled enabled s"

definition parseEnabled :: "any_value \<Rightarrow> bool" where
  "parseEnabled newValue = (case newValue of AnyBool val \<Rightarrow> val | _ \<Rightarrow> False)"

definition onWindowSnapConfigChange :: "any_value \<Rightarrow> any_value \<Rightarrow> system \<Rightarrow> system" where
  "onWindowSnapConfigChange oldValue newValue s =
     OnWindowSnapConfigChanged (parseEnabled newValue) s"

section \<open>Registry\<close>

definition updateWindowSizeCacheLocked :: "int \<Rightarrow> system \<Rightarrow> system" where
  "updateWindowSizeCacheLocked documentID s =
     s\<lparr>windowSizeCache := (windowSizeCache s)(documentID \<mapsto> winSize s documentID)\<rparr>"

definition RegisterWindow :: "int \<Rightarrow> instant \<Rightarrow> system \<Rightarrow> system" where
  "RegisterWindow documentID now s =
     (let windowInfo = \<lparr> DocumentID = documentID, IsSnapped = False,
                          SnapOffset = \<lparr>X = 0, Y = 0\<rparr>, SnapEdge = SnapEdgeNone,
                          LastPos = winPosition s documentID, MoveTime = now \<rparr>;
          s1 = s\<lparr>managedWindows := (managedWindows s)(documentID \<mapsto> windowInfo),
                 windowRefs := insert documentID (windowRefs s)\<rparr>
      in updateWindowSizeCacheLocked documentID s1)"

definition UnregisterWindow :: "int \<Rightarrow> system \<Rightarrow> system" where
  "UnregisterWindow documentID s =
     s\<lparr>managedWindows := (managedWindows s)(documentID := None),
       windowRefs := windowRefs s - {documentID},
       windowSizeCache := (windowSizeCache s)(documentID := None),
       isUpdatingPosition := (isUpdatingPosition s)(documentID := None)\<rparr>"

section \<open>Adaptive threshold\<close>

text \<open>Go's conversion of a float to \<open>int\<close> truncates towards zero.\<close>

definition go_int :: "real \<Rightarrow> int" where
  "go_int r = (if 0 \<le> r then \<lfloor>r\<rfloor> else \<lceil>r\<rceil>)"

definition calculateAdaptiveThreshold :: "system \<Rightarrow> int" where
  "calculateAdaptiveThreshold s =
     (let mainWidth = fst (lastMainWindowSize s)
      in if mainWidth = 0 then minThreshold s
         else let adaptiveThreshold = go_int (real_of_int mainWidth * baseThresholdRatio s)
              in if adaptiveThreshold < minThreshold s then minThreshold s
                 else if adaptiveThreshold > maxThreshold s then maxThreshold s
                 else adaptiveThreshold)"

definition GetCurrentThreshold :: "system \<Rightarrow> int \<times> system" where
  "GetCurrentThreshold s = (calculateAdaptiveThreshold s, s)"

section \<open>Geometry caches and the windowing layer\<close>

definition updateMainWindowCacheLocked :: "system \<Rightarrow> system" where
  "updateMainWindowCacheLocked s =
     (case mainWindow s of
        None \<Rightarrow> s
      | Some (pos, sz) \<Rightarrow> s\<lparr>lastMainWindowPos := pos, lastMainWindowSize := sz\<rparr>)"

definition UpdateMainWindowCache :: "system \<Rightarrow> system" where
  "UpdateMainWindowCache s = updateMainWindowCacheLocked s"

definition getWindowSizeCached :: "int \<Rightarrow> system \<Rightarrow> (int \<times> int) \<times> system" where
  "getWindowSizeCached documentID s =
     (case windowSizeCache s documentID of
        Some sz \<Rightarrow> (sz, s)
      | None \<Rightarrow>
          (let s1 = updateWindowSizeCacheLocked documentID s
           in case windowSizeCache s1 documentID of
                Some sz \<Rightarrow> (sz, s1)
              | None \<Rightarrow> (winSize s1 documentID, s1)))"

text \<open>
  What \<open>window.SetPosition\<close> does in the windowing layer: the window is where it was
  told to be. The notification the write raises is part of \<open>SetPosition\<close> below.
\<close>

definition writePosition :: "int \<Rightarrow> int \<Rightarrow> int \<Rightarrow> system \<Rightarrow> system" where
  "writePosition documentID x y s =
     s\<lparr>winPosition := (winPosition s)(documentID := \<lparr>X = x, Y = y\<rparr>)\<rparr>"

section \<open>Snap decision\<close>

record snapCheck =
  edge :: SnapEdge
  distance :: real
  priority :: int

text \<open>The value of a 64-bit signed integer expression: the exact value modulo \<open>2^64\<close>.\<close>

definition wrapInt :: "int \<Rightarrow> int" where
  "wrapInt n = (n + 2 ^ 63) mod 2 ^ 64 - 2 ^ 63"

text \<open>
  The two loops of \<open>shouldSnapToMainWindow\<close> over the corner and the edge checks. In
  the corner loop \<open>sq\<close> is the value of \<open>check.dx*check.dx + check.dy*check.dy\<close>; when
  it is negative, \<open>math.Sqrt\<close> gives NaN and \<open>dist <= cornerThreshold\<close> is false.
\<close>

fun cornerLoop :: "real \<Rightarrow> (SnapEdge \<times> int \<times> int) list \<Rightarrow> snapCheck option \<Rightarrow> snapCheck option" where
  "cornerLoop cornerThreshold [] bestSnap = bestSnap"
| "cornerLoop cornerThreshold ((e, dx, dy) # checks) bestSnap =
     (let sq = wrapInt (dx * dx + dy * dy);
          d = sqrt (real_of_int sq)
      in cornerLoop cornerThreshold checks
           (if 0 \<le> sq \<and> d \<le> cornerThreshold
            then (case bestSnap of
                    None \<Rightarrow> Some \<lparr>edge = e, distance = d, priority = 1\<rparr>
                  | Some b \<Rightarrow> if d < distance b
                              then Some \<lparr>edge = e, distance = d, priority = 1\<rparr>
                              else bestSnap)
            else bestSnap))"

fun edgeLoop :: "real \<Rightarrow> (SnapEdge \<times> real) list \<Rightarrow> snapCheck option \<Rightarrow> snapCheck option" where
  "edgeLoop threshold [] bestSnap = bestSnap"
| "edgeLoop threshold ((e, d) # checks) bestSnap =
     edgeLoop threshold checks
       (if d \<le> threshold
        then (case bestSnap of
                None \<Rightarrow> Some \<lparr>edge = e, distance = d, priority = 2\<rparr>
              | Some b \<Rightarrow> if d < distance b
                          then Some \<lparr>edge = e, distance = d, priority = 2\<rparr>
                          else bestSnap)
        else bestSnap)"

text \<open>
  The slices \<open>cornerChecks\<close> and \<open>edgeChecks\<close>, from the primary rectangle, the window's
  position and its size.
\<close>

definition cornerChecks ::
  "WindowPosition \<Rightarrow> int \<times> int \<Rightarrow> WindowPosition \<Rightarrow> int \<times> int \<Rightarrow> (SnapEdge \<times> int \<times> int) list" where
  "cornerChecks mainPos mainSize currentPos windowSize =
     (let mainLeft = X mainPos; mainTop = Y mainPos;
          mainRight = X mainPos + fst mainSize; mainBottom = Y mainPos + snd mainSize;
          windowLeft = X currentPos; windowTop = Y currentPos;
          windowRight = X currentPos + fst windowSize; windowBottom = Y currentPos + snd windowSize
      in [ (SnapEdgeTopRight, mainRight - windowLeft, mainTop - windowBottom),
           (SnapEdgeBottomRight, mainRight - windowLeft, mainBottom - windowTop),
           (SnapEdgeBottomLeft, mainLeft - windowRight, mainBottom - windowTop),
           (SnapEdgeTopLeft, mainLeft - windowRight, mainTop - windowBottom) ])"

definition edgeChecks ::
  "WindowPosition \<Rightarrow> int \<times> int \<Rightarrow> WindowPosition \<Rightarrow> int \<times> int \<Rightarrow> (SnapEdge \<times> real) list" where
  "edgeChecks mainPos mainSize currentPos windowSize =
     (let mainLeft = X mainPos; mainTop = Y mainPos;
          mainRight = X mainPos + fst mainSize; mainBottom = Y mainPos + snd mainSize;
          windowLeft = X currentPos; windowTop = Y currentPos;
          windowRight = X currentPos + fst windowSize; windowBottom = Y currentPos + snd windowSize
      in [ (SnapEdgeRight, \<bar>real_of_int (mainRight - windowLeft)\<bar>),
           (SnapEdgeLeft, \<bar>real_of_int (mainLeft - windowRight)\<bar>),
           (SnapEdgeBottom, \<bar>real_of_int (mainBottom - windowTop)\<bar>),
           (SnapEdgeTop, \<bar>real_of_int (mainTop - windowBottom)\<bar>) ])"

definition shouldSnapToMainWindow ::
  "int \<Rightarrow> WindowPosition \<Rightarrow> instant \<Rightarrow> instant \<Rightarrow> system \<Rightarrow> (bool \<times> SnapEdge) \<times> system" where
  "shouldSnapToMainWindow documentID currentPos lastMoveTime now' s =
     (let timeSinceLastMove = now' - lastMoveTime
      in if timeSinceLastMove < debounceThreshold then ((False, SnapEdgeNone), s)
         else
           let s1 = (if fst (lastMainWindowSize s) = 0 \<or> snd (lastMainWindowSize s) = 0
                     then updateMainWindowCacheLocked s else s);
               mainPos = lastMainWindowPos s1;
               mainSize = lastMainWindowSize s1;
               (windowSize, s2) = getWindowSizeCached documentID s1;
               threshold = real_of_int (calculateAdaptiveThreshold s2);
               cornerThreshold = threshold * 1.5;
               bestSnap = cornerLoop cornerThreshold
                            (cornerChecks mainPos mainSize currentPos windowSize) None;
               bestSnap' = (if bestSnap = None
                            then edgeLoop threshold
                                   (edgeChecks mainPos mainSize currentPos windowSize) bestSnap
                            else bestSnap)
           in case bestSnap' of
                None \<Rightarrow> ((False, SnapEdgeNone), s2)
              | Some b \<Rightarrow> ((True, edge b), s2))"

definition calculateSnapPosition ::
  "SnapEdge \<Rightarrow> WindowPosition \<Rightarrow> int \<Rightarrow> system \<Rightarrow> WindowPosition \<times> system" where
  "calculateSnapPosition snapEdge currentPos documentID s =
     (let mainPos = lastMainWindowPos s;
          mainWidth = fst (lastMainWindowSize s);
          mainHeight = snd (lastMainWindowSize s);
          ((windowWidth, windowHeight), s1) = getWindowSizeCached documentID s
      in (case snapEdge of
            SnapEdgeRight \<Rightarrow> \<lparr>X = X mainPos + mainWidth, Y = Y currentPos\<rparr>
          | SnapEdgeLeft \<Rightarrow> \<lparr>X = X mainPos - windowWidth, Y = Y currentPos\<rparr>
          | SnapEdgeBottom \<Rightarrow> \<lparr>X = X currentPos, Y = Y mainPos + mainHeight\<rparr>
          | SnapEdgeTop \<Rightarrow> \<lparr>X = X currentPos, Y = Y mainPos - windowHeight\<rparr>
          | SnapEdgeTopRight \<Rightarrow> \<lparr>X = X mainPos + mainWidth, Y = Y mainPos - windowHeight\<rparr>
          | SnapEdgeBottomRight \<Rightarrow> \<lparr>X = X mainPos + mainWidth, Y = Y mainPos + mainHeight\<rparr>
          | SnapEdgeBottomLeft \<Rightarrow> \<lparr>X = X mainPos - windowWidth, Y = Y mainPos + mainHeight\<rparr>
          | SnapEdgeTopLeft \<Rightarrow> \<lparr>X = X mainPos - windowWidth, Y = Y mainPos - windowHeight\<rparr>
          | SnapEdgeNone \<Rightarrow> currentPos,
          s1))"

section \<open>The state machine\<close>

text \<open>
  The handlers receive a pointer to the window's \<open>WindowInfo\<close>, the entry of
  \<open>managedWindows\<close>. A handler here takes the entry's value and returns the updated
  value, and \<open>onChildWindowMoved\<close> and \<open>onMainWindowMoved\<close> store it back. Where a handler
  calls \<open>window.SetPosition\<close>, which enters the window's listener, it stores the value
  before the call and reads the entry again after it, as the listener works on the same
  object.
\<close>

definition handleSnappedWindow ::
  "WindowInfo \<Rightarrow> WindowPosition \<Rightarrow> instant \<Rightarrow> system \<Rightarrow> WindowInfo" where
  "handleSnappedWindow windowInfo currentPos now' s =
     (let expectedX = X (lastMainWindowPos s) + X (SnapOffset windowInfo);
          expectedY = Y (lastMainWindowPos s) + Y (SnapOffset windowInfo);
          distanceX = \<bar>real_of_int (X currentPos - expectedX)\<bar>;
          distanceY = \<bar>real_of_int (Y currentPos - expectedY)\<bar>;
          maxDistance = max distanceX distanceY;
          userDragThreshold = real_of_int (calculateAdaptiveThreshold s);
          isUserDrag = (maxDistance > userDragThreshold
                        \<and> now' - MoveTime windowInfo < dragDetectionThreshold)
      in if isUserDrag
         then windowInfo\<lparr>IsSnapped := False, SnapEdge := SnapEdgeNone\<rparr>
         else windowInfo)"

text \<open>
  \<open>onChildWindowMoved\<close> for the window of \<open>documentID\<close>: \<open>now\<close> is the reading of
  \<open>time.Now()\<close> stored in \<open>MoveTime\<close>, \<open>now'\<close> the later reading that \<open>time.Since\<close> takes
  in \<open>handleSnappedWindow\<close> or \<open>shouldSnapToMainWindow\<close>. The hook exists only between
  \<open>RegisterWindow\<close> and \<open>UnregisterWindow\<close>, so an event for a document without an entry
  changes nothing.

  \<open>SetPosition\<close> is \<open>window.SetPosition\<close> as the service meets it: the write, and the
  \<open>WindowDidMove\<close> notification the write raises, which enters the listener that
  \<open>setupWindowEvents\<close> registered for the window, \<open>onChildWindowMoved\<close>, before the call
  returns. Its argument \<open>now\<close> is the reading of the clock the listener takes. So
  \<open>onChildWindowMoved\<close>, \<open>handleUnsnappedWindow\<close> and \<open>SetPosition\<close> call each other; the
  recursion ends because the listener entered from a write finds the flag of
  \<open>isUpdatingPosition\<close> that the caller has set.
\<close>

function onChildWindowMoved :: "int \<Rightarrow> instant \<Rightarrow> instant \<Rightarrow> system \<Rightarrow> system"
  and handleUnsnappedWindow ::
    "int \<Rightarrow> WindowInfo \<Rightarrow> WindowPosition \<Rightarrow> instant \<Rightarrow> instant \<Rightarrow> system
       \<Rightarrow> bool \<times> WindowInfo \<times> system"
  and SetPosition :: "int \<Rightarrow> int \<Rightarrow> int \<Rightarrow> instant \<Rightarrow> system \<Rightarrow> system"
where
  "onChildWindowMoved documentID now now' s =
     (if \<not> snapEnabled s then s
      else if isUpdatingPosition s documentID = Some True then s
      else case managedWindows s documentID of
             None \<Rightarrow> s
           | Some windowInfo \<Rightarrow>
               let currentPos = winPosition s documentID
               in if X currentPos = X (LastPos windowInfo) \<and> Y currentPos = Y (LastPos windowInfo)
                  then s
                  else
                    let lastMoveTime = MoveTime windowInfo;
                        windowInfo1 = windowInfo\<lparr>MoveTime := now\<rparr>
                    in if IsSnapped windowInfo1
                       then
                         let windowInfo2 = handleSnappedWindow windowInfo1 currentPos now' s;
                             windowInfo3 = windowInfo2\<lparr>LastPos := currentPos\<rparr>
                         in s\<lparr>managedWindows := (managedWindows s)(documentID \<mapsto> windowInfo3)\<rparr>
                       else
                         let (isSnapped, windowInfo2, s1) =
                               handleUnsnappedWindow documentID windowInfo1 currentPos lastMoveTime now' s;
                             windowInfo3 = (if \<not> isSnapped then windowInfo2\<lparr>LastPos := currentPos\<rparr>
                                            else windowInfo2)
                         in s1\<lparr>managedWindows := (managedWindows s1)(documentID \<mapsto> windowInfo3)\<rparr>)"
| "handleUnsnappedWindow documentID windowInfo currentPos lastMoveTime now' s =
     (let ((should, snapEdge), s1) = shouldSnapToMainWindow documentID currentPos lastMoveTime now' s
      in if should
         then
           let windowInfo1 = windowInfo\<lparr>IsSnapped := True, SnapEdge := snapEdge\<rparr>;
               (targetPos, s2) = calculateSnapPosition snapEdge currentPos documentID s1;
               s3 = s2\<lparr>managedWindows := (managedWindows s2)(documentID \<mapsto> windowInfo1),
                       isUpdatingPosition := (isUpdatingPosition s2)(documentID \<mapsto> True)\<rparr>;
               s4 = SetPosition documentID (X targetPos) (Y targetPos) now' s3;
               s5 = s4\<lparr>isUpdatingPosition := (isUpdatingPosition s4)(documentID \<mapsto> False)\<rparr>;
               windowInfo2 = (case managedWindows s5 documentID of
                                Some w \<Rightarrow> w
                              | None \<Rightarrow> windowInfo1);
               windowInfo3 = windowInfo2\<lparr>SnapOffset :=
                                \<lparr>X = X targetPos - X (lastMainWindowPos s5),
                                 Y = Y targetPos - Y (lastMainWindowPos s5)\<rparr>\<rparr>;
               windowInfo4 = windowInfo3\<lparr>LastPos := targetPos\<rparr>
           in (True, windowInfo4, s5)
         else (False, windowInfo, s1))"
| "SetPosition documentID x y now s =
     onChildWindowMoved documentID now now (writePosition documentID x y s)"
  by pat_completeness auto
termination
  by (relation "measure (\<lambda>call. case call of
          Inl (documentID, now, now', s) \<Rightarrow>
            (if isUpdatingPosition s documentID = Some True then 0 else 3)
        | Inr (Inl (documentID, windowInfo, currentPos, lastMoveTime, now', s)) \<Rightarrow> 2
        | Inr (Inr (documentID, x, y, now, s)) \<Rightarrow>
            (if isUpdatingPosition s documentID = Some True then 1 else 4))")
     (auto simp: writePosition_def)

declare onChildWindowMoved.simps [simp del]
declare handleUnsnappedWindow.simps [simp del]
declare SetPosition.simps [simp del]

text \<open>
  \<open>updateSnappedWindowPosition\<close> for one window, and the loop of \<open>onMainWindowMoved\<close>
  over \<open>managedWindows\<close>; \<open>now\<close> is the reading of the clock that a listener entered
  from the writes takes. An iteration reads the primary cache and touches only the
  entries of its own document (its \<open>WindowInfo\<close>, its flag, its window), so the loop,
  whose order Go leaves open, is the update of every document's entries at once.
\<close>

definition updateSnappedWindowPosition ::
  "WindowInfo \<Rightarrow> int \<Rightarrow> instant \<Rightarrow> system \<Rightarrow> WindowInfo \<times> system" where
  "updateSnappedWindowPosition windowInfo documentID now s =
     (let expectedX = X (lastMainWindowPos s) + X (SnapOffset windowInfo);
          expectedY = Y (lastMainWindowPos s) + Y (SnapOffset windowInfo)
      in if documentID \<notin> windowRefs s then (windowInfo, s)
         else
           let s1 = s\<lparr>isUpdatingPosition := (isUpdatingPosition s)(documentID \<mapsto> True)\<rparr>;
               s2 = SetPosition documentID expectedX expectedY now s1;
               s3 = s2\<lparr>isUpdatingPosition := (isUpdatingPosition s2)(documentID \<mapsto> False)\<rparr>;
               windowInfo1 = (case managedWindows s3 documentID of
                                Some w \<Rightarrow> w
                              | None \<Rightarrow> windowInfo)
           in (windowInfo1\<lparr>LastPos := \<lparr>X = expectedX, Y = expectedY\<rparr>\<rparr>, s3))"

definition onMainWindowMoved :: "instant \<Rightarrow> system \<Rightarrow> system" where
  "onMainWindowMoved now s =
     (if \<not> snapEnabled s then s
      else case mainWindow s of
             None \<Rightarrow> s
           | Some (pos, sz) \<Rightarrow>
               let s1 = s\<lparr>lastMainWindowPos := pos, lastMainWindowSize := sz\<rparr>;
                   moved = (\<lambda>documentID.
                              case managedWindows s1 documentID of
                                None \<Rightarrow> None
                              | Some windowInfo \<Rightarrow>
                                  if IsSnapped windowInfo
                                  then Some (updateSnappedWindowPosition windowInfo documentID now s1)
                                  else None)
               in s1\<lparr>managedWindows := (\<lambda>documentID.
                          case moved documentID of
                            None \<Rightarrow> managedWindows s1 documentID
                          | Some (windowInfo, s2) \<Rightarrow> Some windowInfo),
                      isUpdatingPosition := (\<lambda>documentID.
                          case moved documentID of
                            None \<Rightarrow> isUpdatingPosition s1 documentID
                          | Some (windowInfo, s2) \<Rightarrow> isUpdatingPosition s2 documentID),
                      winPosition := (\<lambda>documentID.
                          case moved documentID of
                            None \<Rightarrow> winPosition s1 documentID
                          | Some (windowInfo, s2) \<Rightarrow> winPosition s2 documentID)\<rparr>)"

definition Cleanup :: "system \<Rightarrow> system" where
  "Cleanup s =
     s\<lparr>managedWindows := Map.empty, windowRefs := {},
       windowSizeCache := Map.empty, isUpdatingPosition := Map.empty\<rparr>"

section \<open>Reachable states\<close>

text \<open>
  The states the service can be in: the constructed one, and the ones after an operation,
  an event, or a change of the windowing layer (the user or the window manager moving
  and resizing windows, the primary window appearing or going away).
\<close>

inductive reachable :: "system \<Rightarrow> bool" where
  construct: "reachable (NewWindowSnapService cfg mw wp wsz)"
| environment: "reachable s \<Longrightarrow> reachable (s\<lparr>mainWindow := mw, winPosition := wp, winSize := wsz\<rparr>)"
| register: "reachable s \<Longrightarrow> reachable (RegisterWindow documentID now s)"
| unregister: "reachable s \<Longrightarrow> reachable (UnregisterWindow documentID s)"
| set_enabled: "reachable s \<Longrightarrow> reachable (SetSnapEnabled enabled s)"
| config_change: "reachable s \<Longrightarrow> reachable (onWindowSnapConfigChange oldValue newValue s)"
| update_cache: "reachable s \<Longrightarrow> reachable (UpdateMainWindowCache s)"
| child_moved: "reachable s \<Longrightarrow> reachable (onChildWindowMoved documentID now now' s)"
| main_moved: "reachable s \<Longrightarrow> reachable (onMainWindowMoved now s)"
| cleanup: "reachable s \<Longrightarrow> reachable (Cleanup s)"

text \<open>The threshold parameters never change after construction.\<close>

definition thresholdParams :: "system \<Rightarrow> bool" where
  "thresholdParams s \<longleftrightarrow>
     baseThresholdRatio s = 0.025 \<and> minThreshold s = 8 \<and> maxThreshold s = 40"

text \<open>
  What holds of every entry in every reachable state: it is snapped exactly when it has
  an edge, and only while snapping is enabled; and the documents with an entry are the
  documents with a window reference.
\<close>

definition infoOk :: "bool \<Rightarrow> WindowInfo \<Rightarrow> bool" where
  "infoOk enabled windowInfo \<longleftrightarrow>
     (IsSnapped windowInfo \<longleftrightarrow> SnapEdge windowInfo \<noteq> SnapEdgeNone)
     \<and> (IsSnapped windowInfo \<longrightarrow> enabled)"

definition registryOk :: "system \<Rightarrow> bool" where
  "registryOk s \<longleftrightarrow>
     thresholdParams s
     \<and> dom (managedWindows s) = windowRefs s
     \<and> (\<forall>documentID windowInfo. managedWindows s documentID = Some windowInfo
            \<longrightarrow> infoOk (snapEnabled s) windowInfo)"

definition isCorner :: "SnapEdge \<Rightarrow> bool" where
  "isCorner e \<longleftrightarrow> e \<in> {SnapEdgeTopLeft, SnapEdgeTopRight, SnapEdgeBottomLeft, SnapEdgeBottomRight}"

definition isEdge :: "SnapEdge \<Rightarrow> bool" where
  "isEdge e \<longleftrightarrow> e \<in> {SnapEdgeTop, SnapEdgeBottom, SnapEdgeLeft, SnapEdgeRight}"

text \<open>
  A corner check as the corner loop sees it: the integer it takes the root of, the
  distance it computes, and whether it accepts the check. Beside them the Euclidean
  distance of the two gap components, and the checks whose sum of squares is below
  \<open>2^63\<close>, for which the loop computes just that.
\<close>

definition cornerSquares :: "SnapEdge \<times> int \<times> int \<Rightarrow> int" where
  "cornerSquares c = (case c of (e, dx, dy) \<Rightarrow> wrapInt (dx * dx + dy * dy))"

definition cornerDist :: "SnapEdge \<times> int \<times> int \<Rightarrow> real" where
  "cornerDist c = sqrt (real_of_int (cornerSquares c))"

definition cornerWithin :: "real \<Rightarrow> SnapEdge \<times> int \<times> int \<Rightarrow> bool" where
  "cornerWithin thr c \<longleftrightarrow> 0 \<le> cornerSquares c \<and> cornerDist c \<le> thr"

definition euclideanDistance :: "SnapEdge \<times> int \<times> int \<Rightarrow> real" where
  "euclideanDistance c = (case c of (e, dx, dy) \<Rightarrow> sqrt (real_of_int (dx * dx + dy * dy)))"

definition squaresFit :: "SnapEdge \<times> int \<times> int \<Rightarrow> bool" where
  "squaresFit c = (case c of (e, dx, dy) \<Rightarrow> dx * dx + dy * dy < 2 ^ 63)"

text \<open>
  Two states that differ at most in the caches (the primary geometry cache and the
  window-size cache).
\<close>

definition sameRegistry :: "system \<Rightarrow> system \<Rightarrow> bool" where
  "sameRegistry s s' \<longleftrightarrow>
     snapEnabled s' = snapEnabled s \<and> baseThresholdRatio s' = baseThresholdRatio s
     \<and> minThreshold s' = minThreshold s \<and> maxThreshold s' = maxThreshold s
     \<and> managedWindows s' = managedWindows s \<and> windowRefs s' = windowRefs s
     \<and> isUpdatingPosition s' = isUpdatingPosition s
     \<and> mainWindow s' = mainWindow s \<and> winPosition s' = winPosition s \<and> winSize s' = winSize s"

text \<open>
  The values \<open>shouldSnapToMainWindow\<close> works with once the debounce test has passed:
  the primary cache, refreshed when a cached dimension is 0; the state after the
  window's size has been looked up; the threshold; and the two slices of checks.
\<close>

definition primaryRefreshed :: "system \<Rightarrow> system" where
  "primaryRefreshed s =
     (if fst (lastMainWindowSize s) = 0 \<or> snd (lastMainWindowSize s) = 0
      then updateMainWindowCacheLocked s else s)"

definition candidateState :: "int \<Rightarrow> system \<Rightarrow> system" where
  "candidateState documentID s = snd (getWindowSizeCached documentID (primaryRefreshed s))"

definition candidateThreshold :: "int \<Rightarrow> system \<Rightarrow> real" where
  "candidateThreshold documentID s =
     real_of_int (calculateAdaptiveThreshold (candidateState documentID s))"

definition candidateCorners :: "int \<Rightarrow> WindowPosition \<Rightarrow> system \<Rightarrow> (SnapEdge \<times> int \<times> int) list" where
  "candidateCorners documentID currentPos s =
     (let s1 = primaryRefreshed s
      in cornerChecks (lastMainWindowPos s1) (lastMainWindowSize s1) currentPos
           (fst (getWindowSizeCached documentID s1)))"

definition candidateEdges :: "int \<Rightarrow> WindowPosition \<Rightarrow> system \<Rightarrow> (SnapEdge \<times> real) list" where
  "candidateEdges documentID currentPos s =
     (let s1 = primaryRefreshed s
      in edgeChecks (lastMainWindowPos s1) (lastMainWindowSize s1) currentPos
           (fst (getWindowSizeCached documentID s1)))"

section \<open>Example states\<close>

text \<open>
  The scenarios of the specification: the primary window at \<open>(100, 100)\<close> with size
  \<open>700 \<times> 800\<close>, document windows of size \<open>300 \<times> 200\<close>, snapping enabled.
  \<open>userMoves\<close>, \<open>primaryMoves\<close> and \<open>primaryResizes\<close> are changes of the windowing
  layer; the handler runs afterwards.
\<close>

definition userMoves :: "int \<Rightarrow> int \<Rightarrow> int \<Rightarrow> system \<Rightarrow> system" where
  "userMoves documentID x y s =
     s\<lparr>mainWindow := mainWindow s,
       winPosition := (winPosition s)(documentID := \<lparr>X = x, Y = y\<rparr>),
       winSize := winSize s\<rparr>"

definition primaryMoves :: "int \<Rightarrow> int \<Rightarrow> system \<Rightarrow> system" where
  "primaryMoves x y s =
     s\<lparr>mainWindow := map_option (\<lambda>(pos, sz). (\<lparr>X = x, Y = y\<rparr>, sz)) (mainWindow s),
       winPosition := winPosition s,
       winSize := winSize s\<rparr>"

definition primaryResizes :: "int \<Rightarrow> int \<Rightarrow> system \<Rightarrow> system" where
  "primaryResizes w h s =
     s\<lparr>mainWindow := map_option (\<lambda>(pos, sz). (pos, (w, h))) (mainWindow s),
       winPosition := winPosition s,
       winSize := winSize s\<rparr>"

definition exampleConfig :: "string + AppConfig" where
  "exampleConfig = Inr \<lparr>General = \<lparr>EnableWindowSnap = True\<rparr>\<rparr>"

definition exampleFresh :: system where
  "exampleFresh =
     NewWindowSnapService exampleConfig (Some (\<lparr>X = 100, Y = 100\<rparr>, (700, 800)))
       (\<lambda>documentID. \<lparr>X = 0, Y = 0\<rparr>) (\<lambda>documentID. (300, 200))"

definition exampleStart :: system where
  "exampleStart = UpdateMainWindowCache exampleFresh"

definition exampleRegistered :: system where
  "exampleRegistered = RegisterWindow 1 0 exampleStart"

definition exampleDragged :: system where
  "exampleDragged = userMoves 1 805 300 exampleRegistered"

definition exampleSnapped :: system where
  "exampleSnapped = onChildWindowMoved 1 (1000 * millisecond) (1000 * millisecond) exampleDragged"

definition exampleWide :: system where
  "exampleWide = UpdateMainWindowCache (primaryResizes 2000 1200 exampleRegistered)"

definition exampleDisabled :: system where
  "exampleDisabled = userMoves 1 850 300 (SetSnapEnabled False exampleSnapped)"

definition exampleGuarded :: system where
  "exampleGuarded =
     writePosition 1 830 315
       (exampleSnapped\<lparr>isUpdatingPosition := (isUpdatingPosition exampleSnapped)(1 \<mapsto> True)\<rparr>)"

text \<open>
  The service as constructed when the configuration cannot be read, and the snapped
  window of \<open>exampleSnapped\<close> dragged by the user: 50 pixels away, and 5 pixels away.
\<close>

definition exampleUnreadable :: system where
  "exampleUnreadable =
     NewWindowSnapService (Inl ''config unreadable'') None
       (\<lambda>documentID. \<lparr>X = 0, Y = 0\<rparr>) (\<lambda>documentID. (300, 200))"

definition examplePulled :: system where
  "examplePulled = userMoves 1 850 300 exampleSnapped"

definition exampleNudged :: system where
  "exampleNudged =
     onChildWindowMoved 1 (2000 * millisecond) (2000 * millisecond)
       (userMoves 1 805 300 exampleSnapped)"

definition exampleFollowed :: system where
  "exampleFollowed = onMainWindowMoved (3000 * millisecond) (primaryMoves 130 115 exampleNudged)"



text \<open>
  The primary at the right end of the 32-bit range, and a window dragged to the left end
  of that range, its bottom edge level with the primary's top edge.
\<close>

definition exampleFarStart :: system where
  "exampleFarStart =
     UpdateMainWindowCache
       (NewWindowSnapService exampleConfig (Some (\<lparr>X = 2147483647, Y = 100\<rparr>, (700, 800)))
          (\<lambda>documentID. \<lparr>X = 0, Y = 0\<rparr>) (\<lambda>documentID. (300, 200)))"

definition exampleFar :: system where
  "exampleFar = userMoves 1 (- 2147482949) (- 100) (RegisterWindow 1 0 exampleFarStart)"

section \<open>Properties of the adaptive threshold\<close>

lemma go_int_mono: "a \<le> b \<Longrightarrow> go_int a \<le> go_int b"
  unfolding go_int_def
  by (smt (verit) ceiling_mono floor_mono ceiling_le_zero ceiling_less_zero zero_le_floor floor_less_zero)

lemma threshold_clamp:
  assumes "thresholdParams s"
  shows "calculateAdaptiveThreshold s
       = max 8 (min 40 (go_int (real_of_int (fst (lastMainWindowSize s)) * 0.025)))"
proof -
  from assms have r: "baseThresholdRatio s = 0.025" "minThreshold s = 8" "maxThreshold s = 40"
    unfolding thresholdParams_def by blast+
  have z: "go_int 0 = 0" by (simp add: go_int_def)
  show ?thesis
    unfolding calculateAdaptiveThreshold_def Let_def r
    by (cases "fst (lastMainWindowSize s) = 0") (simp_all add: z)
qed

lemma threshold_mono:
  assumes "thresholdParams s" "thresholdParams s'"
    and "fst (lastMainWindowSize s) \<le> fst (lastMainWindowSize s')"
  shows "calculateAdaptiveThreshold s \<le> calculateAdaptiveThreshold s'"
proof -
  have "real_of_int (fst (lastMainWindowSize s)) * 0.025 \<le> real_of_int (fst (lastMainWindowSize s')) * 0.025"
    using assms(3) by simp
  then have "go_int (real_of_int (fst (lastMainWindowSize s)) * 0.025)
      \<le> go_int (real_of_int (fst (lastMainWindowSize s')) * 0.025)"
    by (rule go_int_mono)
  then show ?thesis
    using assms(1,2) by (simp add: threshold_clamp)
qed

lemma threshold_small:
  assumes "thresholdParams s" "real_of_int (fst (lastMainWindowSize s)) * 0.025 < 8"
  shows "calculateAdaptiveThreshold s = 8"
proof -
  have "go_int (real_of_int (fst (lastMainWindowSize s)) * 0.025) \<le> 8"
    using assms(2) unfolding go_int_def by (auto simp: floor_le_iff ceiling_le_iff)
  then show ?thesis using assms(1) by (simp add: threshold_clamp)
qed

section \<open>The candidate loops\<close>

lemma cornerLoop_step:
  "cornerLoop thr (c # cs) b0 =
     cornerLoop thr cs
       (if cornerWithin thr c \<and> (case b0 of None \<Rightarrow> True | Some b \<Rightarrow> cornerDist c < distance b)
        then Some \<lparr>edge = fst c, distance = cornerDist c, priority = 1\<rparr> else b0)"
  by (cases c) (simp add: cornerDist_def cornerSquares_def cornerWithin_def Let_def split: option.splits)

lemma cornerLoop_None:
  "(cornerLoop thr cs b0 = None) = (b0 = None \<and> (\<forall>c \<in> set cs. \<not> cornerWithin thr c))"
proof (induction cs arbitrary: b0)
  case Nil
  show ?case by simp
next
  case (Cons c cs)
  show ?case
    unfolding cornerLoop_step Cons.IH
    by (auto split: option.splits)
qed

lemma cornerLoop_Some:
  assumes "cornerLoop thr cs b0 = Some b"
  shows "(b0 = Some b \<or> (\<exists>c \<in> set cs. edge b = fst c \<and> distance b = cornerDist c
                              \<and> cornerWithin thr c \<and> priority b = 1))
         \<and> (\<forall>c \<in> set cs. cornerWithin thr c \<longrightarrow> distance b \<le> cornerDist c)
         \<and> (\<forall>b'. b0 = Some b' \<longrightarrow> distance b \<le> distance b')"
  using assms
proof (induction cs arbitrary: b0)
  case Nil
  then show ?case by simp
next
  case (Cons c cs)
  let ?b1 = "if cornerWithin thr c \<and> (case b0 of None \<Rightarrow> True | Some b \<Rightarrow> cornerDist c < distance b)
        then Some \<lparr>edge = fst c, distance = cornerDist c, priority = 1\<rparr> else b0"
  from Cons.prems have run: "cornerLoop thr cs ?b1 = Some b"
    by (simp only: cornerLoop_step)
  note ih = Cons.IH [OF run]
  show ?case
  proof (cases "cornerWithin thr c \<and> (case b0 of None \<Rightarrow> True | Some b \<Rightarrow> cornerDist c < distance b)")
    case True
    then have b1: "?b1 = Some \<lparr>edge = fst c, distance = cornerDist c, priority = 1\<rparr>" by simp
    from ih b1 have le: "distance b \<le> cornerDist c" by simp
    from ih b1 have src: "b = \<lparr>edge = fst c, distance = cornerDist c, priority = 1\<rparr>
        \<or> (\<exists>c' \<in> set cs. edge b = fst c' \<and> distance b = cornerDist c' \<and> cornerWithin thr c' \<and> priority b = 1)"
      by auto
    from ih have rest: "\<forall>c' \<in> set cs. cornerWithin thr c' \<longrightarrow> distance b \<le> cornerDist c'" by blast
    have "\<exists>c' \<in> set (c # cs). edge b = fst c' \<and> distance b = cornerDist c' \<and> cornerWithin thr c' \<and> priority b = 1"
      using src True by auto
    moreover have "\<forall>c' \<in> set (c # cs). cornerWithin thr c' \<longrightarrow> distance b \<le> cornerDist c'"
      using rest le by simp
    moreover have "\<forall>b'. b0 = Some b' \<longrightarrow> distance b \<le> distance b'"
      using True le by auto
    ultimately show ?thesis by blast
  next
    case False
    then have b1: "?b1 = b0" by (simp only: if_False)
    from ih b1 have src: "b0 = Some b
        \<or> (\<exists>c' \<in> set cs. edge b = fst c' \<and> distance b = cornerDist c' \<and> cornerWithin thr c' \<and> priority b = 1)"
      by auto
    from ih have rest: "\<forall>c' \<in> set cs. cornerWithin thr c' \<longrightarrow> distance b \<le> cornerDist c'" by blast
    from ih b1 have old: "\<forall>b'. b0 = Some b' \<longrightarrow> distance b \<le> distance b'" by simp
    have "cornerWithin thr c \<longrightarrow> distance b \<le> cornerDist c"
    proof
      assume acc: "cornerWithin thr c"
      with False obtain b' where b': "b0 = Some b'" "\<not> cornerDist c < distance b'"
        by (cases b0) auto
      with old show "distance b \<le> cornerDist c" by auto
    qed
    with rest have "\<forall>c' \<in> set (c # cs). cornerWithin thr c' \<longrightarrow> distance b \<le> cornerDist c'"
      by simp
    moreover have "b0 = Some b
        \<or> (\<exists>c' \<in> set (c # cs). edge b = fst c' \<and> distance b = cornerDist c' \<and> cornerWithin thr c' \<and> priority b = 1)"
      using src by auto
    ultimately show ?thesis using old by blast
  qed
qed

lemma edgeLoop_step:
  "edgeLoop thr (c # cs) b0 =
     edgeLoop thr cs
       (if snd c \<le> thr \<and> (case b0 of None \<Rightarrow> True | Some b \<Rightarrow> snd c < distance b)
        then Some \<lparr>edge = fst c, distance = snd c, priority = 2\<rparr> else b0)"
  by (cases c) (simp split: option.splits)

lemma edgeLoop_None:
  "(edgeLoop thr cs b0 = None) = (b0 = None \<and> (\<forall>c \<in> set cs. \<not> snd c \<le> thr))"
proof (induction cs arbitrary: b0)
  case Nil
  show ?case by simp
next
  case (Cons c cs)
  show ?case
    unfolding edgeLoop_step Cons.IH
    by (auto split: option.splits)
qed

lemma edgeLoop_Some:
  assumes "edgeLoop thr cs b0 = Some b"
  shows "(b0 = Some b \<or> (\<exists>c \<in> set cs. edge b = fst c \<and> distance b = snd c
                              \<and> snd c \<le> thr \<and> priority b = 2))
         \<and> (\<forall>c \<in> set cs. snd c \<le> thr \<longrightarrow> distance b \<le> snd c)
         \<and> (\<forall>b'. b0 = Some b' \<longrightarrow> distance b \<le> distance b')"
  using assms
proof (induction cs arbitrary: b0)
  case Nil
  then show ?case by simp
next
  case (Cons c cs)
  let ?b1 = "if snd c \<le> thr \<and> (case b0 of None \<Rightarrow> True | Some b \<Rightarrow> snd c < distance b)
        then Some \<lparr>edge = fst c, distance = snd c, priority = 2\<rparr> else b0"
  from Cons.prems have run: "edgeLoop thr cs ?b1 = Some b"
    by (simp only: edgeLoop_step)
  note ih = Cons.IH [OF run]
  show ?case
  proof (cases "snd c \<le> thr \<and> (case b0 of None \<Rightarrow> True | Some b \<Rightarrow> snd c < distance b)")
    case True
    then have b1: "?b1 = Some \<lparr>edge = fst c, distance = snd c, priority = 2\<rparr>" by simp
    from ih b1 have le: "distance b \<le> snd c" by simp
    from ih b1 have src: "b = \<lparr>edge = fst c, distance = snd c, priority = 2\<rparr>
        \<or> (\<exists>c' \<in> set cs. edge b = fst c' \<and> distance b = snd c' \<and> snd c' \<le> thr \<and> priority b = 2)"
      by auto
    from ih have rest: "\<forall>c' \<in> set cs. snd c' \<le> thr \<longrightarrow> distance b \<le> snd c'" by blast
    have "\<exists>c' \<in> set (c # cs). edge b = fst c' \<and> distance b = snd c' \<and> snd c' \<le> thr \<and> priority b = 2"
      using src True by auto
    moreover have "\<forall>c' \<in> set (c # cs). snd c' \<le> thr \<longrightarrow> distance b \<le> snd c'"
      using rest le by simp
    moreover have "\<forall>b'. b0 = Some b' \<longrightarrow> distance b \<le> distance b'"
      using True le by auto
    ultimately show ?thesis by blast
  next
    case False
    then have b1: "?b1 = b0" by (simp only: if_False)
    from ih b1 have src: "b0 = Some b
        \<or> (\<exists>c' \<in> set cs. edge b = fst c' \<and> distance b = snd c' \<and> snd c' \<le> thr \<and> priority b = 2)"
      by auto
    from ih have rest: "\<forall>c' \<in> set cs. snd c' \<le> thr \<longrightarrow> distance b \<le> snd c'" by blast
    from ih b1 have old: "\<forall>b'. b0 = Some b' \<longrightarrow> distance b \<le> distance b'" by simp
    have "snd c \<le> thr \<longrightarrow> distance b \<le> snd c"
    proof
      assume acc: "snd c \<le> thr"
      with False obtain b' where b': "b0 = Some b'" "\<not> snd c < distance b'"
        by (cases b0) auto
      with old show "distance b \<le> snd c" by auto
    qed
    with rest have "\<forall>c' \<in> set (c # cs). snd c' \<le> thr \<longrightarrow> distance b \<le> snd c'"
      by simp
    moreover have "b0 = Some b
        \<or> (\<exists>c' \<in> set (c # cs). edge b = fst c' \<and> distance b = snd c' \<and> snd c' \<le> thr \<and> priority b = 2)"
      using src by auto
    ultimately show ?thesis using old by blast
  qed
qed

lemma cornerChecks_edges:
  "c \<in> set (cornerChecks mainPos mainSize currentPos windowSize) \<Longrightarrow> isCorner (fst c)"
  by (auto simp: cornerChecks_def isCorner_def Let_def)

lemma edgeChecks_edges:
  "c \<in> set (edgeChecks mainPos mainSize currentPos windowSize) \<Longrightarrow> isEdge (fst c)"
  by (auto simp: edgeChecks_def isEdge_def Let_def)

lemma isCorner_not_None: "isCorner e \<Longrightarrow> e \<noteq> SnapEdgeNone"
  by (auto simp: isCorner_def)

lemma isEdge_not_None: "isEdge e \<Longrightarrow> e \<noteq> SnapEdgeNone"
  by (auto simp: isEdge_def)

lemma isCorner_not_isEdge: "isCorner e \<Longrightarrow> \<not> isEdge e"
  by (auto simp: isCorner_def isEdge_def)

section \<open>What the cache refreshes leave alone\<close>

lemma sameRegistry_refl: "sameRegistry s s"
  by (simp add: sameRegistry_def)

lemma sameRegistry_trans: "sameRegistry s s1 \<Longrightarrow> sameRegistry s1 s2 \<Longrightarrow> sameRegistry s s2"
  by (simp add: sameRegistry_def)

lemma updateMainWindowCacheLocked_same: "sameRegistry s (updateMainWindowCacheLocked s)"
  by (simp add: sameRegistry_def updateMainWindowCacheLocked_def split: option.splits prod.splits)

lemma getWindowSizeCached_same: "sameRegistry s (snd (getWindowSizeCached documentID s))"
  by (simp add: sameRegistry_def getWindowSizeCached_def updateWindowSizeCacheLocked_def
      split: option.splits)

lemma getWindowSizeCached_main:
  "lastMainWindowPos (snd (getWindowSizeCached documentID s)) = lastMainWindowPos s
   \<and> lastMainWindowSize (snd (getWindowSizeCached documentID s)) = lastMainWindowSize s"
  by (simp add: getWindowSizeCached_def updateWindowSizeCacheLocked_def split: option.splits)

lemma shouldSnapToMainWindow_same:
  "sameRegistry s (snd (shouldSnapToMainWindow documentID currentPos lastMoveTime now' s))"
proof -
  let ?s1 = "if fst (lastMainWindowSize s) = 0 \<or> snd (lastMainWindowSize s) = 0
             then updateMainWindowCacheLocked s else s"
  have a: "sameRegistry s ?s1"
    by (simp add: sameRegistry_refl updateMainWindowCacheLocked_same)
  have b: "sameRegistry ?s1 (snd (getWindowSizeCached documentID ?s1))"
    by (rule getWindowSizeCached_same)
  have "snd (shouldSnapToMainWindow documentID currentPos lastMoveTime now' s) = s
        \<or> snd (shouldSnapToMainWindow documentID currentPos lastMoveTime now' s)
             = snd (getWindowSizeCached documentID ?s1)"
    by (simp add: shouldSnapToMainWindow_def Let_def split: prod.splits option.splits)
  then show ?thesis
    using sameRegistry_trans [OF a b] sameRegistry_refl by metis
qed

lemma calculateSnapPosition_same:
  "sameRegistry s (snd (calculateSnapPosition snapEdge currentPos documentID s))"
proof -
  have "snd (calculateSnapPosition snapEdge currentPos documentID s)
          = snd (getWindowSizeCached documentID s)"
    by (simp add: calculateSnapPosition_def Let_def split: prod.splits)
  then show ?thesis by (simp add: getWindowSizeCached_same)
qed

section \<open>The snap decision, unfolded\<close>

lemma shouldSnapToMainWindow_debounced:
  "now' - lastMoveTime < debounceThreshold \<Longrightarrow>
     shouldSnapToMainWindow documentID currentPos lastMoveTime now' s = ((False, SnapEdgeNone), s)"
  by (simp add: shouldSnapToMainWindow_def)

lemma shouldSnapToMainWindow_evaluated:
  assumes "\<not> now' - lastMoveTime < debounceThreshold"
  shows "shouldSnapToMainWindow documentID currentPos lastMoveTime now' s =
     (case cornerLoop (candidateThreshold documentID s * 1.5)
             (candidateCorners documentID currentPos s) None of
        Some b \<Rightarrow> ((True, edge b), candidateState documentID s)
      | None \<Rightarrow>
         (case edgeLoop (candidateThreshold documentID s)
                 (candidateEdges documentID currentPos s) None of
            Some b \<Rightarrow> ((True, edge b), candidateState documentID s)
          | None \<Rightarrow> ((False, SnapEdgeNone), candidateState documentID s)))"
  using assms
  by (simp add: shouldSnapToMainWindow_def candidateThreshold_def candidateCorners_def
      candidateEdges_def candidateState_def primaryRefreshed_def Let_def getWindowSizeCached_main
      split: prod.splits option.splits)


lemma shouldSnapToMainWindow_edge:
  assumes "fst (shouldSnapToMainWindow documentID currentPos lastMoveTime now' s) = (True, e)"
  shows "isCorner e \<or> isEdge e"
proof (cases "now' - lastMoveTime < debounceThreshold")
  case True
  with assms show ?thesis by (simp add: shouldSnapToMainWindow_debounced)
next
  case False
  note ev = shouldSnapToMainWindow_evaluated [OF False, of documentID currentPos s]
  show ?thesis
  proof (cases "cornerLoop (candidateThreshold documentID s * 1.5)
             (candidateCorners documentID currentPos s) None")
    case (Some b)
    with assms ev have e: "e = edge b" by simp
    from cornerLoop_Some [OF Some] obtain c
      where "c \<in> set (candidateCorners documentID currentPos s)" "edge b = fst c"
      by auto
    then have "isCorner (edge b)"
      by (auto simp: candidateCorners_def Let_def dest: cornerChecks_edges)
    with e show ?thesis by simp
  next
    case None
    note cn = this
    show ?thesis
    proof (cases "edgeLoop (candidateThreshold documentID s)
                 (candidateEdges documentID currentPos s) None")
      case None
      with cn assms ev show ?thesis by simp
    next
      case (Some b)
      with cn assms ev have e: "e = edge b" by simp
      from edgeLoop_Some [OF Some] obtain c
        where "c \<in> set (candidateEdges documentID currentPos s)" "edge b = fst c"
        by auto
      then have "isEdge (edge b)"
        by (auto simp: candidateEdges_def Let_def dest: edgeChecks_edges)
      with e show ?thesis by simp
    qed
  qed
qed

section \<open>Attaching\<close>

lemma candidateState_same: "sameRegistry s (candidateState documentID s)"
proof -
  have "sameRegistry s (primaryRefreshed s)"
    by (simp add: primaryRefreshed_def sameRegistry_refl updateMainWindowCacheLocked_same)
  then show ?thesis
    unfolding candidateState_def
    by (rule sameRegistry_trans) (rule getWindowSizeCached_same)
qed

lemma onChildWindowMoved_guarded:
  "isUpdatingPosition s documentID = Some True \<Longrightarrow> onChildWindowMoved documentID now now' s = s"
  by (simp add: onChildWindowMoved.simps)

text \<open>
  The listener entered from a write made under the flag returns at once: the write is
  all that \<open>SetPosition\<close> does then.
\<close>

lemma SetPosition_guarded:
  assumes "isUpdatingPosition s documentID = Some True"
  shows "SetPosition documentID x y now s = writePosition documentID x y s"
proof -
  have "isUpdatingPosition (writePosition documentID x y s) documentID = Some True"
    using assms by (simp add: writePosition_def)
  then show ?thesis
    by (simp add: SetPosition.simps onChildWindowMoved_guarded)
qed

lemma handleUnsnappedWindow_rejected:
  assumes "fst (fst (shouldSnapToMainWindow documentID currentPos lastMoveTime now' s)) = False"
  shows "handleUnsnappedWindow documentID windowInfo currentPos lastMoveTime now' s
           = (False, windowInfo, snd (shouldSnapToMainWindow documentID currentPos lastMoveTime now' s))"
proof (cases "shouldSnapToMainWindow documentID currentPos lastMoveTime now' s")
  case (Pair r s1)
  with assms show ?thesis
    by (cases r) (simp add: handleUnsnappedWindow.simps)
qed

lemma handleUnsnappedWindow_accepted:
  assumes "shouldSnapToMainWindow documentID currentPos lastMoveTime now' s = ((True, snapEdge), s1)"
    and "calculateSnapPosition snapEdge currentPos documentID s1 = (targetPos, s2)"
  shows "handleUnsnappedWindow documentID windowInfo currentPos lastMoveTime now' s
           = (True,
              windowInfo\<lparr>IsSnapped := True, SnapEdge := snapEdge,
                          SnapOffset := \<lparr>X = X targetPos - X (lastMainWindowPos s2),
                                         Y = Y targetPos - Y (lastMainWindowPos s2)\<rparr>,
                          LastPos := targetPos\<rparr>,
              s2\<lparr>managedWindows := (managedWindows s2)(documentID \<mapsto>
                     windowInfo\<lparr>IsSnapped := True, SnapEdge := snapEdge\<rparr>),
                  isUpdatingPosition := (isUpdatingPosition s2)(documentID \<mapsto> False),
                  winPosition := (winPosition s2)(documentID := targetPos)\<rparr>)"
proof -
  let ?s3 = "s2\<lparr>managedWindows := (managedWindows s2)(documentID \<mapsto>
                     windowInfo\<lparr>IsSnapped := True, SnapEdge := snapEdge\<rparr>),
                 isUpdatingPosition := (isUpdatingPosition s2)(documentID \<mapsto> True)\<rparr>"
  have t: "\<lparr>X = X targetPos, Y = Y targetPos\<rparr> = targetPos" by simp
  have w: "SetPosition documentID (X targetPos) (Y targetPos) now' ?s3
             = writePosition documentID (X targetPos) (Y targetPos) ?s3"
    by (rule SetPosition_guarded) simp
  show ?thesis
    using assms by (simp add: handleUnsnappedWindow.simps w writePosition_def Let_def t)
qed

lemma handleSnappedWindow_cases:
  "handleSnappedWindow windowInfo currentPos now' s = windowInfo
   \<or> handleSnappedWindow windowInfo currentPos now' s
        = windowInfo\<lparr>IsSnapped := False, SnapEdge := SnapEdgeNone\<rparr>"
  by (simp add: handleSnappedWindow_def Let_def)

section \<open>The child-window handler, case by case\<close>

lemma onChildWindowMoved_disabled:
  "\<not> snapEnabled s \<Longrightarrow> onChildWindowMoved documentID now now' s = s"
  by (simp add: onChildWindowMoved.simps)

lemma onChildWindowMoved_unmanaged:
  "managedWindows s documentID = None \<Longrightarrow> onChildWindowMoved documentID now now' s = s"
  by (simp add: onChildWindowMoved.simps)

lemma onChildWindowMoved_unmoved:
  assumes "managedWindows s documentID = Some windowInfo"
    and "X (winPosition s documentID) = X (LastPos windowInfo)"
    and "Y (winPosition s documentID) = Y (LastPos windowInfo)"
  shows "onChildWindowMoved documentID now now' s = s"
  using assms by (simp add: onChildWindowMoved.simps)

lemma onChildWindowMoved_snapped:
  assumes "snapEnabled s" and "isUpdatingPosition s documentID \<noteq> Some True"
    and "managedWindows s documentID = Some windowInfo"
    and "\<not> (X (winPosition s documentID) = X (LastPos windowInfo)
            \<and> Y (winPosition s documentID) = Y (LastPos windowInfo))"
    and "IsSnapped windowInfo"
  shows "onChildWindowMoved documentID now now' s =
           s\<lparr>managedWindows := (managedWindows s)(documentID \<mapsto>
                (handleSnappedWindow (windowInfo\<lparr>MoveTime := now\<rparr>) (winPosition s documentID) now' s)
                  \<lparr>LastPos := winPosition s documentID\<rparr>)\<rparr>"
  using assms by (auto simp: onChildWindowMoved.simps Let_def)

lemma onChildWindowMoved_rejected:
  assumes "snapEnabled s" and "isUpdatingPosition s documentID \<noteq> Some True"
    and "managedWindows s documentID = Some windowInfo"
    and "\<not> (X (winPosition s documentID) = X (LastPos windowInfo)
            \<and> Y (winPosition s documentID) = Y (LastPos windowInfo))"
    and "\<not> IsSnapped windowInfo"
    and "fst (fst (shouldSnapToMainWindow documentID (winPosition s documentID)
                     (MoveTime windowInfo) now' s)) = False"
  shows "onChildWindowMoved documentID now now' s =
           (snd (shouldSnapToMainWindow documentID (winPosition s documentID)
                   (MoveTime windowInfo) now' s))
             \<lparr>managedWindows := (managedWindows s)(documentID \<mapsto>
                windowInfo\<lparr>MoveTime := now, LastPos := winPosition s documentID\<rparr>)\<rparr>"
proof -
  let ?r = "shouldSnapToMainWindow documentID (winPosition s documentID) (MoveTime windowInfo) now' s"
  have same: "managedWindows (snd ?r) = managedWindows s"
    using shouldSnapToMainWindow_same [of s documentID "winPosition s documentID" "MoveTime windowInfo" now']
    by (simp add: sameRegistry_def)
  have h: "handleUnsnappedWindow documentID (windowInfo\<lparr>MoveTime := now\<rparr>)
             (winPosition s documentID) (MoveTime windowInfo) now' s
           = (False, windowInfo\<lparr>MoveTime := now\<rparr>, snd ?r)"
    using assms(6) by (rule handleUnsnappedWindow_rejected)
  show ?thesis
    using assms(1-5) by (auto simp: onChildWindowMoved.simps Let_def h same)
qed

lemma onChildWindowMoved_accepted:
  assumes "snapEnabled s" and "isUpdatingPosition s documentID \<noteq> Some True"
    and "managedWindows s documentID = Some windowInfo"
    and "\<not> (X (winPosition s documentID) = X (LastPos windowInfo)
            \<and> Y (winPosition s documentID) = Y (LastPos windowInfo))"
    and "\<not> IsSnapped windowInfo"
    and "shouldSnapToMainWindow documentID (winPosition s documentID) (MoveTime windowInfo) now' s
           = ((True, snapEdge), s1)"
    and "calculateSnapPosition snapEdge (winPosition s documentID) documentID s1 = (targetPos, s2)"
  shows "onChildWindowMoved documentID now now' s =
           s2\<lparr>isUpdatingPosition := (isUpdatingPosition s)(documentID \<mapsto> False),
               winPosition := (winPosition s)(documentID := targetPos),
               managedWindows := (managedWindows s)(documentID \<mapsto>
                 windowInfo\<lparr>MoveTime := now, IsSnapped := True, SnapEdge := snapEdge,
                   SnapOffset := \<lparr>X = X targetPos - X (lastMainWindowPos s2),
                                  Y = Y targetPos - Y (lastMainWindowPos s2)\<rparr>,
                   LastPos := targetPos\<rparr>)\<rparr>"
proof -
  have "sameRegistry s s1"
    using shouldSnapToMainWindow_same [of s documentID "winPosition s documentID" "MoveTime windowInfo" now']
      assms(6) by simp
  moreover have "sameRegistry s1 s2"
    using calculateSnapPosition_same [of s1 snapEdge "winPosition s documentID" documentID]
      assms(7) by simp
  ultimately have "sameRegistry s s2" by (rule sameRegistry_trans)
  then have same: "managedWindows s2 = managedWindows s" "isUpdatingPosition s2 = isUpdatingPosition s"
      "winPosition s2 = winPosition s"
    by (simp_all add: sameRegistry_def)
  note h = handleUnsnappedWindow_accepted [OF assms(6,7), of "windowInfo\<lparr>MoveTime := now\<rparr>"]
  show ?thesis
    using assms(1-5) by (auto simp: onChildWindowMoved.simps Let_def h same)
qed

section \<open>The registry invariant\<close>

lemma sameRegistry_params: "sameRegistry s s' \<Longrightarrow> thresholdParams s' = thresholdParams s"
  by (simp add: sameRegistry_def thresholdParams_def)

lemma registryOk_construct: "registryOk (NewWindowSnapService cfg mw wp wsz)"
  by (simp add: registryOk_def thresholdParams_def NewWindowSnapService_def)

lemma registryOk_environment:
  "registryOk s \<Longrightarrow> registryOk (s\<lparr>mainWindow := mw, winPosition := wp, winSize := wsz\<rparr>)"
  by (simp add: registryOk_def thresholdParams_def)

lemma registryOk_register: "registryOk s \<Longrightarrow> registryOk (RegisterWindow documentID now s)"
  by (simp add: registryOk_def thresholdParams_def RegisterWindow_def
      updateWindowSizeCacheLocked_def infoOk_def)

lemma registryOk_unregister: "registryOk s \<Longrightarrow> registryOk (UnregisterWindow documentID s)"
  by (simp add: registryOk_def thresholdParams_def UnregisterWindow_def)

lemma infoOk_released:
  "infoOk enabled windowInfo \<Longrightarrow>
     infoOk False (if IsSnapped windowInfo
                   then windowInfo\<lparr>IsSnapped := False, SnapEdge := SnapEdgeNone\<rparr>
                   else windowInfo)"
  by (simp add: infoOk_def)

lemma infoOk_enabled: "infoOk enabled windowInfo \<Longrightarrow> infoOk True windowInfo"
  by (simp add: infoOk_def)

lemma registryOk_set_enabled:
  assumes "registryOk s"
  shows "registryOk (SetSnapEnabled enabled s)"
proof (cases "snapEnabled s = enabled")
  case True
  with assms show ?thesis by (simp add: SetSnapEnabled_def)
next
  case False
  show ?thesis
  proof (cases enabled)
    case True
    with False assms show ?thesis
      by (auto simp: SetSnapEnabled_def registryOk_def thresholdParams_def intro: infoOk_enabled)
  next
    case off: False
    with False have on: "snapEnabled s" by simp
    have en: "snapEnabled (SetSnapEnabled enabled s) = False"
      using on off by (simp add: SetSnapEnabled_def)
    have par: "thresholdParams (SetSnapEnabled enabled s)"
      using assms on off by (simp add: SetSnapEnabled_def registryOk_def thresholdParams_def)
    have mw: "managedWindows (SetSnapEnabled enabled s) documentID
                = map_option (\<lambda>windowInfo. if IsSnapped windowInfo
                     then windowInfo\<lparr>IsSnapped := False, SnapEdge := SnapEdgeNone\<rparr>
                     else windowInfo) (managedWindows s documentID)" for documentID
      using on off by (simp add: SetSnapEnabled_def)
    show ?thesis
      unfolding registryOk_def en
    proof (intro conjI allI impI)
      show "thresholdParams (SetSnapEnabled enabled s)" by (rule par)
    next
      have "dom (managedWindows (SetSnapEnabled enabled s)) = dom (managedWindows s)"
        by (auto simp: mw dom_def)
      moreover have "windowRefs (SetSnapEnabled enabled s) = windowRefs s"
        by (simp add: SetSnapEnabled_def Let_def)
      ultimately show "dom (managedWindows (SetSnapEnabled enabled s))
                         = windowRefs (SetSnapEnabled enabled s)"
        using assms by (simp add: registryOk_def)
    next
      fix documentID windowInfo
      assume "managedWindows (SetSnapEnabled enabled s) documentID = Some windowInfo"
      then obtain w0 where w0: "managedWindows s documentID = Some w0"
        and w: "windowInfo = (if IsSnapped w0
                     then w0\<lparr>IsSnapped := False, SnapEdge := SnapEdgeNone\<rparr> else w0)"
        unfolding mw by auto
      from assms w0 have "infoOk (snapEnabled s) w0" by (simp add: registryOk_def)
      then show "infoOk False windowInfo"
        unfolding w by (rule infoOk_released)
    qed
  qed
qed

lemma registryOk_update_cache: "registryOk s \<Longrightarrow> registryOk (UpdateMainWindowCache s)"
  by (simp add: registryOk_def thresholdParams_def UpdateMainWindowCache_def
      updateMainWindowCacheLocked_def split: option.splits prod.splits)

lemma registryOk_cleanup: "registryOk s \<Longrightarrow> registryOk (Cleanup s)"
  by (simp add: registryOk_def thresholdParams_def Cleanup_def)

lemma registryOk_entry:
  assumes "registryOk s" and "sameRegistry s s'" and "infoOk (snapEnabled s) windowInfo"
    and "managedWindows s documentID = Some windowInfo0"
  shows "registryOk (s'\<lparr>managedWindows := (managedWindows s)(documentID \<mapsto> windowInfo)\<rparr>)"
proof -
  have "insert documentID (dom (managedWindows s)) = dom (managedWindows s)"
    using assms(4) by auto
  then show ?thesis
    using assms(1-3) by (simp add: registryOk_def thresholdParams_def sameRegistry_def)
qed

lemma updateSnappedWindowPosition_eq:
  "updateSnappedWindowPosition windowInfo documentID now s =
     (if documentID \<notin> windowRefs s then (windowInfo, s)
      else ((case managedWindows s documentID of Some w \<Rightarrow> w | None \<Rightarrow> windowInfo)
              \<lparr>LastPos := \<lparr>X = X (lastMainWindowPos s) + X (SnapOffset windowInfo),
                          Y = Y (lastMainWindowPos s) + Y (SnapOffset windowInfo)\<rparr>\<rparr>,
            s\<lparr>isUpdatingPosition := (isUpdatingPosition s)(documentID \<mapsto> False),
              winPosition := (winPosition s)(documentID :=
                 \<lparr>X = X (lastMainWindowPos s) + X (SnapOffset windowInfo),
                  Y = Y (lastMainWindowPos s) + Y (SnapOffset windowInfo)\<rparr>)\<rparr>))"
proof -
  let ?s1 = "s\<lparr>isUpdatingPosition := (isUpdatingPosition s)(documentID \<mapsto> True)\<rparr>"
  have w: "SetPosition documentID x y now ?s1 = writePosition documentID x y ?s1" for x y
    by (rule SetPosition_guarded) simp
  show ?thesis
    by (simp add: updateSnappedWindowPosition_def Let_def w writePosition_def)
qed

lemma onMainWindowMoved_idle:
  "\<not> snapEnabled s \<or> mainWindow s = None \<Longrightarrow> onMainWindowMoved now s = s"
  by (auto simp: onMainWindowMoved_def)

lemma onMainWindowMoved_fields:
  assumes "snapEnabled s" and "mainWindow s = Some (pos, sz)"
  shows "lastMainWindowPos (onMainWindowMoved now s) = pos"
    and "lastMainWindowSize (onMainWindowMoved now s) = sz"
    and "snapEnabled (onMainWindowMoved now s) = snapEnabled s"
    and "thresholdParams (onMainWindowMoved now s) = thresholdParams s"
    and "windowRefs (onMainWindowMoved now s) = windowRefs s"
    and "windowSizeCache (onMainWindowMoved now s) = windowSizeCache s"
    and "mainWindow (onMainWindowMoved now s) = mainWindow s"
    and "winSize (onMainWindowMoved now s) = winSize s"
  using assms by (simp_all add: onMainWindowMoved_def Let_def thresholdParams_def)

lemma onMainWindowMoved_entry:
  assumes "snapEnabled s" and "mainWindow s = Some (pos, sz)"
  shows "managedWindows (onMainWindowMoved now s) documentID =
           map_option (\<lambda>windowInfo.
               if IsSnapped windowInfo \<and> documentID \<in> windowRefs s
               then windowInfo\<lparr>LastPos := \<lparr>X = X pos + X (SnapOffset windowInfo),
                                             Y = Y pos + Y (SnapOffset windowInfo)\<rparr>\<rparr>
               else windowInfo)
             (managedWindows s documentID)"
  using assms
  by (simp add: onMainWindowMoved_def Let_def updateSnappedWindowPosition_eq
      split: option.splits)

lemma onMainWindowMoved_position:
  assumes "snapEnabled s" and "mainWindow s = Some (pos, sz)"
  shows "winPosition (onMainWindowMoved now s) documentID =
           (case managedWindows s documentID of
              None \<Rightarrow> winPosition s documentID
            | Some windowInfo \<Rightarrow>
                if IsSnapped windowInfo \<and> documentID \<in> windowRefs s
                then \<lparr>X = X pos + X (SnapOffset windowInfo), Y = Y pos + Y (SnapOffset windowInfo)\<rparr>
                else winPosition s documentID)"
  using assms
  by (simp add: onMainWindowMoved_def Let_def updateSnappedWindowPosition_eq
      split: option.splits)

lemma onMainWindowMoved_flag:
  assumes "snapEnabled s" and "mainWindow s = Some (pos, sz)"
  shows "isUpdatingPosition (onMainWindowMoved now s) documentID =
           (case managedWindows s documentID of
              None \<Rightarrow> isUpdatingPosition s documentID
            | Some windowInfo \<Rightarrow>
                if IsSnapped windowInfo \<and> documentID \<in> windowRefs s
                then Some False
                else isUpdatingPosition s documentID)"
  using assms
  by (simp add: onMainWindowMoved_def Let_def updateSnappedWindowPosition_eq
      split: option.splits)

lemma registryOk_main_moved:
  assumes "registryOk s"
  shows "registryOk (onMainWindowMoved now s)"
proof (cases "snapEnabled s \<and> mainWindow s \<noteq> None")
  case False
  then have "onMainWindowMoved now s = s"
    by (intro onMainWindowMoved_idle) blast
  with assms show ?thesis by simp
next
  case True
  then obtain pos sz where on: "snapEnabled s" and mw: "mainWindow s = Some (pos, sz)"
    by auto
  note f = onMainWindowMoved_fields [OF on mw] and e = onMainWindowMoved_entry [OF on mw]
  show ?thesis
    unfolding registryOk_def
  proof (intro conjI allI impI)
    show "thresholdParams (onMainWindowMoved now s)"
      using assms by (simp add: f registryOk_def)
  next
    have "dom (managedWindows (onMainWindowMoved now s)) = dom (managedWindows s)"
      by (auto simp: e dom_def)
    then show "dom (managedWindows (onMainWindowMoved now s)) = windowRefs (onMainWindowMoved now s)"
      using assms by (simp add: f registryOk_def)
  next
    fix documentID windowInfo
    assume "managedWindows (onMainWindowMoved now s) documentID = Some windowInfo"
    then obtain w0 where w0: "managedWindows s documentID = Some w0"
      and w: "windowInfo = (if IsSnapped w0 \<and> documentID \<in> windowRefs s
               then w0\<lparr>LastPos := \<lparr>X = X pos + X (SnapOffset w0),
                                    Y = Y pos + Y (SnapOffset w0)\<rparr>\<rparr>
               else w0)"
      unfolding e by auto
    from assms w0 have "infoOk (snapEnabled s) w0" by (simp add: registryOk_def)
    then show "infoOk (snapEnabled (onMainWindowMoved now s)) windowInfo"
      unfolding w f by (simp add: infoOk_def)
  qed
qed

lemma onChildWindowMoved_cases:
  "onChildWindowMoved documentID now now' s = s
   \<or> (\<exists>windowInfo. snapEnabled s \<and> isUpdatingPosition s documentID \<noteq> Some True
          \<and> managedWindows s documentID = Some windowInfo
          \<and> \<not> (X (winPosition s documentID) = X (LastPos windowInfo)
                  \<and> Y (winPosition s documentID) = Y (LastPos windowInfo)))"
proof (cases "managedWindows s documentID")
  case None
  then show ?thesis by (simp add: onChildWindowMoved_unmanaged)
next
  case (Some windowInfo)
  show ?thesis
  proof (cases "snapEnabled s \<and> isUpdatingPosition s documentID \<noteq> Some True
          \<and> \<not> (X (winPosition s documentID) = X (LastPos windowInfo)
                  \<and> Y (winPosition s documentID) = Y (LastPos windowInfo))")
    case True
    with Some show ?thesis by blast
  next
    case False
    then have "onChildWindowMoved documentID now now' s = s"
      using Some by (auto simp: onChildWindowMoved.simps)
    then show ?thesis ..
  qed
qed

lemma registryOk_child_moved:
  assumes ok: "registryOk s"
  shows "registryOk (onChildWindowMoved documentID now now' s)"
proof -
  let ?P = "winPosition s documentID"
  consider (idle) "onChildWindowMoved documentID now now' s = s"
    | (active) windowInfo where "snapEnabled s" "isUpdatingPosition s documentID \<noteq> Some True"
        "managedWindows s documentID = Some windowInfo"
        "\<not> (X ?P = X (LastPos windowInfo) \<and> Y ?P = Y (LastPos windowInfo))"
    using onChildWindowMoved_cases [of documentID now now' s] by blast
  then show ?thesis
  proof cases
    case idle
    with ok show ?thesis by simp
  next
    case (active windowInfo)
    from ok active(3) have wi: "infoOk (snapEnabled s) windowInfo"
      by (simp add: registryOk_def)
    show ?thesis
    proof (cases "IsSnapped windowInfo")
      case True
      have "infoOk (snapEnabled s)
              ((handleSnappedWindow (windowInfo\<lparr>MoveTime := now\<rparr>) ?P now' s)\<lparr>LastPos := ?P\<rparr>)"
        using wi handleSnappedWindow_cases [of "windowInfo\<lparr>MoveTime := now\<rparr>" ?P now' s]
        by (auto simp: infoOk_def)
      from registryOk_entry [OF ok sameRegistry_refl this active(3)]
      show ?thesis
        by (simp add: onChildWindowMoved_snapped [OF active True])
    next
      case False
      let ?r = "shouldSnapToMainWindow documentID ?P (MoveTime windowInfo) now' s"
      show ?thesis
      proof (cases "fst (fst ?r)")
        case no: False
        have "infoOk (snapEnabled s) (windowInfo\<lparr>MoveTime := now, LastPos := ?P\<rparr>)"
          using wi by (simp add: infoOk_def)
        from registryOk_entry [OF ok shouldSnapToMainWindow_same this active(3)]
        show ?thesis
          using no by (simp add: onChildWindowMoved_rejected [OF active False])
      next
        case yes: True
        obtain snapEdge s1 where r: "?r = ((True, snapEdge), s1)"
          using yes by (cases ?r) auto
        obtain targetPos s2
          where t: "calculateSnapPosition snapEdge ?P documentID s1 = (targetPos, s2)"
          by (cases "calculateSnapPosition snapEdge ?P documentID s1")
        have "sameRegistry s s1"
          using shouldSnapToMainWindow_same [of s documentID ?P "MoveTime windowInfo" now'] r
          by simp
        moreover have "sameRegistry s1 s2"
          using calculateSnapPosition_same [of s1 snapEdge ?P documentID] t by simp
        ultimately have same: "sameRegistry s s2" by (rule sameRegistry_trans)
        have "isCorner snapEdge \<or> isEdge snapEdge"
          using shouldSnapToMainWindow_edge [of documentID ?P "MoveTime windowInfo" now' s snapEdge] r
          by simp
        then have edge: "snapEdge \<noteq> SnapEdgeNone"
          using isCorner_not_None isEdge_not_None by blast
        have "infoOk (snapEnabled s)
                (windowInfo\<lparr>MoveTime := now, IsSnapped := True, SnapEdge := snapEdge,
                   SnapOffset := \<lparr>X = X targetPos - X (lastMainWindowPos s2),
                                  Y = Y targetPos - Y (lastMainWindowPos s2)\<rparr>,
                   LastPos := targetPos\<rparr>)"
          using edge active(1) by (simp add: infoOk_def)
        from registryOk_entry [OF ok same this active(3)]
        have "registryOk (s2\<lparr>managedWindows := (managedWindows s)(documentID \<mapsto>
                 windowInfo\<lparr>MoveTime := now, IsSnapped := True, SnapEdge := snapEdge,
                   SnapOffset := \<lparr>X = X targetPos - X (lastMainWindowPos s2),
                                  Y = Y targetPos - Y (lastMainWindowPos s2)\<rparr>,
                   LastPos := targetPos\<rparr>)\<rparr>)" .
        then show ?thesis
          by (simp add: onChildWindowMoved_accepted [OF active False r t] registryOk_def
              thresholdParams_def)
      qed
    qed
  qed
qed

lemma reachable_registryOk: "reachable s \<Longrightarrow> registryOk s"
proof (induction rule: reachable.induct)
  case (construct cfg mw wp wsz)
  show ?case by (rule registryOk_construct)
next
  case (environment s mw wp wsz)
  then show ?case by (simp add: registryOk_environment)
next
  case (register s documentID now)
  then show ?case by (simp add: registryOk_register)
next
  case (unregister s documentID)
  then show ?case by (simp add: registryOk_unregister)
next
  case (set_enabled s enabled)
  then show ?case by (simp add: registryOk_set_enabled)
next
  case (config_change s oldValue newValue)
  then show ?case
    by (simp add: onWindowSnapConfigChange_def OnWindowSnapConfigChanged_def registryOk_set_enabled)
next
  case (update_cache s)
  then show ?case by (simp add: registryOk_update_cache)
next
  case (child_moved s documentID now now')
  then show ?case by (simp add: registryOk_child_moved)
next
  case main_moved
  then show ?case by (simp add: registryOk_main_moved)
next
  case (cleanup s)
  then show ?case by (simp add: registryOk_cleanup)
qed

section \<open>Evaluating the example states\<close>

lemma exampleRegistered_eq:
  "exampleRegistered =
     \<lparr> mainWindow = Some (\<lparr>X = 100, Y = 100\<rparr>, (700, 800)),
       winPosition = (\<lambda>documentID. \<lparr>X = 0, Y = 0\<rparr>),
       winSize = (\<lambda>documentID. (300, 200)),
       snapEnabled = True, baseThresholdRatio = 0.025, minThreshold = 8, maxThreshold = 40,
       lastMainWindowPos = \<lparr>X = 100, Y = 100\<rparr>, lastMainWindowSize = (700, 800),
       managedWindows = [1 \<mapsto> \<lparr>DocumentID = 1, IsSnapped = False, SnapOffset = \<lparr>X = 0, Y = 0\<rparr>,
                                  SnapEdge = SnapEdgeNone, LastPos = \<lparr>X = 0, Y = 0\<rparr>, MoveTime = 0\<rparr>],
       windowRefs = {1}, windowSizeCache = [1 \<mapsto> (300, 200)],
       isUpdatingPosition = Map.empty \<rparr>"
  by (simp add: exampleRegistered_def exampleStart_def exampleFresh_def exampleConfig_def RegisterWindow_def
      UpdateMainWindowCache_def updateMainWindowCacheLocked_def NewWindowSnapService_def
      updateWindowSizeCacheLocked_def)

lemma exampleDragged_eq:
  "exampleDragged =
     \<lparr> mainWindow = Some (\<lparr>X = 100, Y = 100\<rparr>, (700, 800)),
       winPosition = (\<lambda>documentID. \<lparr>X = 0, Y = 0\<rparr>)(1 := \<lparr>X = 805, Y = 300\<rparr>),
       winSize = (\<lambda>documentID. (300, 200)),
       snapEnabled = True, baseThresholdRatio = 0.025, minThreshold = 8, maxThreshold = 40,
       lastMainWindowPos = \<lparr>X = 100, Y = 100\<rparr>, lastMainWindowSize = (700, 800),
       managedWindows = [1 \<mapsto> \<lparr>DocumentID = 1, IsSnapped = False, SnapOffset = \<lparr>X = 0, Y = 0\<rparr>,
                                  SnapEdge = SnapEdgeNone, LastPos = \<lparr>X = 0, Y = 0\<rparr>, MoveTime = 0\<rparr>],
       windowRefs = {1}, windowSizeCache = [1 \<mapsto> (300, 200)],
       isUpdatingPosition = Map.empty \<rparr>"
  by (simp add: exampleDragged_def userMoves_def exampleRegistered_eq)

lemma sqrt_le_iff_sq: "0 \<le> y \<Longrightarrow> (sqrt x \<le> y) = (x \<le> y\<^sup>2)"
  by (metis real_sqrt_abs abs_of_nonneg real_sqrt_le_iff)

text \<open>Where the sum of squares fits, the corner loop works with the Euclidean distance.\<close>

lemma wrapInt_fits: "0 \<le> n \<Longrightarrow> n < 2 ^ 63 \<Longrightarrow> wrapInt n = n"
  by (simp add: wrapInt_def)

lemma squaresFit_cornerSquares:
  assumes "squaresFit c"
  shows "cornerSquares c = (case c of (e, dx, dy) \<Rightarrow> dx * dx + dy * dy)"
    and "0 \<le> cornerSquares c"
proof -
  obtain e dx dy where c: "c = (e, dx, dy)" by (cases c)
  have nonneg: "0 \<le> dx * dx + dy * dy" by simp
  from assms c have fits: "dx * dx + dy * dy < 2 ^ 63" by (simp add: squaresFit_def)
  show "cornerSquares c = (case c of (e, dx, dy) \<Rightarrow> dx * dx + dy * dy)"
    unfolding c cornerSquares_def prod.case by (rule wrapInt_fits [OF nonneg fits])
  then show "0 \<le> cornerSquares c"
    using nonneg by (simp add: c)
qed

lemma squaresFit_cornerDist: "squaresFit c \<Longrightarrow> cornerDist c = euclideanDistance c"
  by (cases c) (simp add: cornerDist_def euclideanDistance_def squaresFit_cornerSquares(1))

lemma squaresFit_cornerWithin:
  "squaresFit c \<Longrightarrow> cornerWithin thr c = (euclideanDistance c \<le> thr)"
  by (simp add: cornerWithin_def squaresFit_cornerSquares(2) squaresFit_cornerDist)

lemma cornerWithin_eval:
  "0 \<le> r \<Longrightarrow>
     cornerWithin r (e, dx, dy)
       = (0 \<le> wrapInt (dx * dx + dy * dy) \<and> real_of_int (wrapInt (dx * dx + dy * dy)) \<le> r\<^sup>2)"
  by (simp add: cornerWithin_def cornerDist_def cornerSquares_def sqrt_le_iff_sq)

lemma euclideanDistance_le:
  "0 \<le> r \<Longrightarrow> (euclideanDistance (e, dx, dy) \<le> r) = (real_of_int (dx * dx + dy * dy) \<le> r\<^sup>2)"
  by (simp add: euclideanDistance_def sqrt_le_iff_sq)

lemma euclideanDistance_mult_le:
  assumes "0 \<le> r" and "0 < k"
  shows "(euclideanDistance (e, dx, dy) * k \<le> r) = (real_of_int (dx * dx + dy * dy) * k\<^sup>2 \<le> r\<^sup>2)"
proof -
  have "euclideanDistance (e, dx, dy) * k = sqrt (real_of_int (dx * dx + dy * dy) * k\<^sup>2)"
    using assms(2) by (simp add: euclideanDistance_def real_sqrt_mult)
  then show ?thesis using assms(1) by (simp add: sqrt_le_iff_sq)
qed

lemma exampleDragged_candidates:
  "candidateState 1 exampleDragged = exampleDragged"
  "candidateThreshold 1 exampleDragged = 17"
  "candidateCorners 1 \<lparr>X = 805, Y = 300\<rparr> exampleDragged =
     [(SnapEdgeTopRight, -5, -400), (SnapEdgeBottomRight, -5, 600),
      (SnapEdgeBottomLeft, -1005, 600), (SnapEdgeTopLeft, -1005, -400)]"
  "candidateEdges 1 \<lparr>X = 805, Y = 300\<rparr> exampleDragged =
     [(SnapEdgeRight, 5), (SnapEdgeLeft, 1005), (SnapEdgeBottom, 600), (SnapEdgeTop, 400)]"
proof -
  have r: "primaryRefreshed exampleDragged = exampleDragged"
    by (simp add: primaryRefreshed_def exampleDragged_eq)
  have g: "getWindowSizeCached 1 exampleDragged = ((300, 200), exampleDragged)"
    by (simp add: getWindowSizeCached_def exampleDragged_eq)
  show c: "candidateState 1 exampleDragged = exampleDragged"
    by (simp add: candidateState_def r g)
  have "calculateAdaptiveThreshold exampleDragged = 17"
    by (simp add: calculateAdaptiveThreshold_def go_int_def exampleDragged_eq)
  then show "candidateThreshold 1 exampleDragged = 17"
    by (simp add: candidateThreshold_def c)
  have m: "lastMainWindowPos exampleDragged = \<lparr>X = 100, Y = 100\<rparr>"
    "lastMainWindowSize exampleDragged = (700, 800)"
    by (simp_all add: exampleDragged_eq)
  show "candidateCorners 1 \<lparr>X = 805, Y = 300\<rparr> exampleDragged =
     [(SnapEdgeTopRight, -5, -400), (SnapEdgeBottomRight, -5, 600),
      (SnapEdgeBottomLeft, -1005, 600), (SnapEdgeTopLeft, -1005, -400)]"
    by (simp add: candidateCorners_def r g m cornerChecks_def)
  show "candidateEdges 1 \<lparr>X = 805, Y = 300\<rparr> exampleDragged =
     [(SnapEdgeRight, 5), (SnapEdgeLeft, 1005), (SnapEdgeBottom, 600), (SnapEdgeTop, 400)]"
    by (simp add: candidateEdges_def r g m edgeChecks_def)
qed

lemma exampleDragged_decision:
  "shouldSnapToMainWindow 1 \<lparr>X = 805, Y = 300\<rparr> 0 (1000 * millisecond) exampleDragged
     = ((True, SnapEdgeRight), exampleDragged)"
proof -
  have t: "\<not> 1000 * millisecond - 0 < debounceThreshold"
    by (simp add: debounceThreshold_def millisecond_def)
  have c: "cornerLoop (17 * 1.5) [(SnapEdgeTopRight, -5, -400), (SnapEdgeBottomRight, -5, 600),
      (SnapEdgeBottomLeft, -1005, 600), (SnapEdgeTopLeft, -1005, -400)] None = None"
    by (simp add: cornerLoop_None cornerWithin_eval wrapInt_def power2_eq_square del: cornerLoop.simps)
  have e: "edgeLoop 17 [(SnapEdgeRight, 5), (SnapEdgeLeft, 1005), (SnapEdgeBottom, 600), (SnapEdgeTop, 400)] None
      = Some \<lparr>edge = SnapEdgeRight, distance = 5, priority = 2\<rparr>"
    by (simp add: edgeLoop_step del: edgeLoop.simps(2))
  show ?thesis
    unfolding shouldSnapToMainWindow_evaluated [OF t] exampleDragged_candidates c e
    by simp
qed

lemma exampleDragged_target:
  "calculateSnapPosition SnapEdgeRight \<lparr>X = 805, Y = 300\<rparr> 1 exampleDragged
     = (\<lparr>X = 800, Y = 300\<rparr>, exampleDragged)"
proof -
  have g: "getWindowSizeCached 1 exampleDragged = ((300, 200), exampleDragged)"
    by (simp add: getWindowSizeCached_def exampleDragged_eq)
  have m: "lastMainWindowPos exampleDragged = \<lparr>X = 100, Y = 100\<rparr>"
    "lastMainWindowSize exampleDragged = (700, 800)"
    by (simp_all add: exampleDragged_eq)
  show ?thesis
    by (simp add: calculateSnapPosition_def g m)
qed

lemma exampleDragged_fields:
  "snapEnabled exampleDragged"
  "isUpdatingPosition exampleDragged 1 \<noteq> Some True"
  "managedWindows exampleDragged 1
     = Some \<lparr>DocumentID = 1, IsSnapped = False, SnapOffset = \<lparr>X = 0, Y = 0\<rparr>,
             SnapEdge = SnapEdgeNone, LastPos = \<lparr>X = 0, Y = 0\<rparr>, MoveTime = 0\<rparr>"
  "winPosition exampleDragged 1 = \<lparr>X = 805, Y = 300\<rparr>"
  by (simp_all add: exampleDragged_eq)

lemma exampleSnapped_eq:
  "exampleSnapped =
     \<lparr> mainWindow = Some (\<lparr>X = 100, Y = 100\<rparr>, (700, 800)),
       winPosition = (\<lambda>documentID. \<lparr>X = 0, Y = 0\<rparr>)(1 := \<lparr>X = 800, Y = 300\<rparr>),
       winSize = (\<lambda>documentID. (300, 200)),
       snapEnabled = True, baseThresholdRatio = 0.025, minThreshold = 8, maxThreshold = 40,
       lastMainWindowPos = \<lparr>X = 100, Y = 100\<rparr>, lastMainWindowSize = (700, 800),
       managedWindows = [1 \<mapsto> \<lparr>DocumentID = 1, IsSnapped = True, SnapOffset = \<lparr>X = 700, Y = 200\<rparr>,
                                  SnapEdge = SnapEdgeRight, LastPos = \<lparr>X = 800, Y = 300\<rparr>,
                                  MoveTime = 1000000000\<rparr>],
       windowRefs = {1}, windowSizeCache = [1 \<mapsto> (300, 200)],
       isUpdatingPosition = [1 \<mapsto> False] \<rparr>"
proof -
  let ?w = "\<lparr>DocumentID = 1, IsSnapped = False, SnapOffset = \<lparr>X = 0, Y = 0\<rparr>,
             SnapEdge = SnapEdgeNone, LastPos = \<lparr>X = 0, Y = 0\<rparr>, MoveTime = 0\<rparr>"
  have moved: "\<not> (X (winPosition exampleDragged 1) = X (LastPos ?w)
                  \<and> Y (winPosition exampleDragged 1) = Y (LastPos ?w))"
    by (simp add: exampleDragged_fields)
  have unsn: "\<not> IsSnapped ?w" by simp
  have d: "shouldSnapToMainWindow 1 (winPosition exampleDragged 1) (MoveTime ?w)
             (1000 * millisecond) exampleDragged = ((True, SnapEdgeRight), exampleDragged)"
    using exampleDragged_decision by (simp add: exampleDragged_fields)
  have t: "calculateSnapPosition SnapEdgeRight (winPosition exampleDragged 1) 1 exampleDragged
             = (\<lparr>X = 800, Y = 300\<rparr>, exampleDragged)"
    using exampleDragged_target by (simp add: exampleDragged_fields)
  note a = onChildWindowMoved_accepted [OF exampleDragged_fields(1,2,3) moved unsn d t,
      of "1000 * millisecond"]
  show ?thesis
    unfolding exampleSnapped_def a
    by (simp add: exampleDragged_eq millisecond_def)
qed

section \<open>The example states are reachable\<close>

lemma reachable_userMoves: "reachable s \<Longrightarrow> reachable (userMoves documentID x y s)"
  unfolding userMoves_def by (rule reachable.environment)

lemma reachable_primaryMoves: "reachable s \<Longrightarrow> reachable (primaryMoves x y s)"
  unfolding primaryMoves_def by (rule reachable.environment)

lemma reachable_primaryResizes: "reachable s \<Longrightarrow> reachable (primaryResizes w h s)"
  unfolding primaryResizes_def by (rule reachable.environment)

lemma reachable_exampleFresh: "reachable exampleFresh"
  unfolding exampleFresh_def by (rule reachable.construct)

lemma reachable_exampleRegistered: "reachable exampleRegistered"
  unfolding exampleRegistered_def exampleStart_def
  by (intro reachable.register reachable.update_cache reachable_exampleFresh)

lemma reachable_exampleDragged: "reachable exampleDragged"
  unfolding exampleDragged_def
  by (intro reachable_userMoves reachable_exampleRegistered)

lemma reachable_exampleSnapped: "reachable exampleSnapped"
  unfolding exampleSnapped_def
  by (intro reachable.child_moved reachable_exampleDragged)

lemma reachable_exampleWide: "reachable exampleWide"
  unfolding exampleWide_def
  by (intro reachable.update_cache reachable_primaryResizes reachable_exampleRegistered)

lemma reachable_params: "reachable s \<Longrightarrow> thresholdParams s"
  using reachable_registryOk by (simp add: registryOk_def)

lemma exampleDisabled_eq:
  "exampleDisabled =
     \<lparr> mainWindow = Some (\<lparr>X = 100, Y = 100\<rparr>, (700, 800)),
       winPosition = (\<lambda>documentID. \<lparr>X = 0, Y = 0\<rparr>)(1 := \<lparr>X = 850, Y = 300\<rparr>),
       winSize = (\<lambda>documentID. (300, 200)),
       snapEnabled = False, baseThresholdRatio = 0.025, minThreshold = 8, maxThreshold = 40,
       lastMainWindowPos = \<lparr>X = 100, Y = 100\<rparr>, lastMainWindowSize = (700, 800),
       managedWindows = [1 \<mapsto> \<lparr>DocumentID = 1, IsSnapped = False, SnapOffset = \<lparr>X = 700, Y = 200\<rparr>,
                                  SnapEdge = SnapEdgeNone, LastPos = \<lparr>X = 800, Y = 300\<rparr>,
                                  MoveTime = 1000000000\<rparr>],
       windowRefs = {1}, windowSizeCache = [1 \<mapsto> (300, 200)],
       isUpdatingPosition = [1 \<mapsto> False] \<rparr>"
  by (auto simp: exampleDisabled_def userMoves_def SetSnapEnabled_def exampleSnapped_eq fun_eq_iff)

section \<open>Claims\<close>

text \<open>
  C6. The adaptive threshold is \<open>clamp(primaryWidth * 0.025, 8, 40)\<close> in integer pixels:
  it lies in \<open>[8, 40]\<close>, is monotonic non-decreasing in the cached primary width, is 8
  whenever \<open>width * 0.025 < 8\<close> and when the cached width is 0, and \<open>GetCurrentThreshold\<close>
  returns it and leaves the state as it is.
\<close>

theorem adaptive_threshold_clamp:
  assumes "reachable s" and "reachable s'"
  shows "calculateAdaptiveThreshold s
           = max 8 (min 40 (go_int (real_of_int (fst (lastMainWindowSize s)) * 0.025)))
       \<and> 8 \<le> calculateAdaptiveThreshold s \<and> calculateAdaptiveThreshold s \<le> 40
       \<and> (fst (lastMainWindowSize s) \<le> fst (lastMainWindowSize s')
            \<longrightarrow> calculateAdaptiveThreshold s \<le> calculateAdaptiveThreshold s')
       \<and> (real_of_int (fst (lastMainWindowSize s)) * 0.025 < 8
            \<longrightarrow> calculateAdaptiveThreshold s = 8)
       \<and> (fst (lastMainWindowSize s) = 0 \<longrightarrow> calculateAdaptiveThreshold s = 8)
       \<and> GetCurrentThreshold s = (calculateAdaptiveThreshold s, s)"
proof -
  from assms have p: "thresholdParams s" "thresholdParams s'"
    by (simp_all add: reachable_params)
  have c: "calculateAdaptiveThreshold s
           = max 8 (min 40 (go_int (real_of_int (fst (lastMainWindowSize s)) * 0.025)))"
    using p(1) by (rule threshold_clamp)
  have b: "8 \<le> calculateAdaptiveThreshold s \<and> calculateAdaptiveThreshold s \<le> 40"
    unfolding c by simp
  have m: "fst (lastMainWindowSize s) \<le> fst (lastMainWindowSize s')
            \<longrightarrow> calculateAdaptiveThreshold s \<le> calculateAdaptiveThreshold s'"
    using p by (simp add: threshold_mono)
  have l: "real_of_int (fst (lastMainWindowSize s)) * 0.025 < 8
            \<longrightarrow> calculateAdaptiveThreshold s = 8"
    using p(1) by (simp add: threshold_small)
  have z: "fst (lastMainWindowSize s) = 0 \<longrightarrow> calculateAdaptiveThreshold s = 8"
    using p(1) by (simp add: threshold_small)
  have g: "GetCurrentThreshold s = (calculateAdaptiveThreshold s, s)"
    by (simp add: GetCurrentThreshold_def)
  from c b m l z g show ?thesis by blast
qed

theorem adaptive_threshold_clamp_witness:
  "reachable exampleFresh \<and> reachable exampleRegistered \<and> reachable exampleWide
   \<and> fst (lastMainWindowSize exampleFresh) = 0
   \<and> fst (lastMainWindowSize exampleRegistered) = 700
   \<and> fst (lastMainWindowSize exampleWide) = 2000
   \<and> calculateAdaptiveThreshold exampleFresh = 8
   \<and> calculateAdaptiveThreshold exampleRegistered = 17
   \<and> calculateAdaptiveThreshold exampleWide = 40
   \<and> GetCurrentThreshold exampleRegistered = (17, exampleRegistered)"
proof -
  have w0: "fst (lastMainWindowSize exampleFresh) = 0"
    by (simp add: exampleFresh_def NewWindowSnapService_def)
  have w1: "fst (lastMainWindowSize exampleRegistered) = 700"
    by (simp add: exampleRegistered_eq)
  have w2: "fst (lastMainWindowSize exampleWide) = 2000"
    by (simp add: exampleWide_def primaryResizes_def UpdateMainWindowCache_def
        updateMainWindowCacheLocked_def exampleRegistered_eq)
  note a = adaptive_threshold_clamp [OF reachable_exampleFresh reachable_exampleRegistered]
    and b = adaptive_threshold_clamp [OF reachable_exampleRegistered reachable_exampleWide]
    and c = adaptive_threshold_clamp [OF reachable_exampleWide reachable_exampleWide]
  have t0: "calculateAdaptiveThreshold exampleFresh = 8"
    using a w0 by simp
  have t1: "calculateAdaptiveThreshold exampleRegistered = 17"
    using b w1 by (simp add: go_int_def)
  have t2: "calculateAdaptiveThreshold exampleWide = 40"
    using c w2 by (simp add: go_int_def)
  have g: "GetCurrentThreshold exampleRegistered = (17, exampleRegistered)"
    using b t1 by simp
  show ?thesis
    using reachable_exampleFresh reachable_exampleRegistered reachable_exampleWide
      w0 w1 w2 t0 t1 t2 g by blast
qed

text \<open>
  C10. While \<open>snapEnabled\<close> is false, both move handlers return before touching any
  state: no field of any window's entry, no cache and no flag changes.
\<close>

theorem disabled_handlers_change_nothing:
  "\<not> snapEnabled s \<Longrightarrow>
     onChildWindowMoved documentID now now' s = s \<and> onMainWindowMoved t s = s"
  by (simp add: onChildWindowMoved_disabled onMainWindowMoved_idle)

theorem disabled_handlers_change_nothing_witness:
  "\<not> snapEnabled exampleDisabled
   \<and> winPosition exampleDisabled 1 = \<lparr>X = 850, Y = 300\<rparr>
   \<and> map_option LastPos (managedWindows exampleDisabled 1) = Some \<lparr>X = 800, Y = 300\<rparr>
   \<and> onChildWindowMoved 1 (1200 * millisecond) (1200 * millisecond) exampleDisabled = exampleDisabled
   \<and> onMainWindowMoved (1200 * millisecond) exampleDisabled = exampleDisabled"
proof -
  have off: "\<not> snapEnabled exampleDisabled"
    by (simp add: exampleDisabled_eq)
  have "winPosition exampleDisabled 1 = \<lparr>X = 850, Y = 300\<rparr>"
    and "map_option LastPos (managedWindows exampleDisabled 1) = Some \<lparr>X = 800, Y = 300\<rparr>"
    by (simp_all add: exampleDisabled_eq)
  with off disabled_handlers_change_nothing [OF off, of 1 "1200 * millisecond" "1200 * millisecond"
      "1200 * millisecond"]
  show ?thesis by simp
qed

text \<open>
  C5. In every reachable state, that is after every operation of the service, every
  registered window has \<open>IsSnapped\<close> exactly when its \<open>SnapEdge\<close> is not \<open>SnapEdgeNone\<close>.
\<close>

theorem snapped_iff_edge:
  "reachable s \<Longrightarrow> managedWindows s documentID = Some windowInfo \<Longrightarrow>
     IsSnapped windowInfo = (SnapEdge windowInfo \<noteq> SnapEdgeNone)"
  using reachable_registryOk [of s] by (simp add: registryOk_def infoOk_def)

theorem snapped_iff_edge_witness:
  "reachable exampleSnapped
   \<and> managedWindows exampleSnapped 1
        = Some \<lparr>DocumentID = 1, IsSnapped = True, SnapOffset = \<lparr>X = 700, Y = 200\<rparr>,
                 SnapEdge = SnapEdgeRight, LastPos = \<lparr>X = 800, Y = 300\<rparr>,
                 MoveTime = 1000000000\<rparr>
   \<and> IsSnapped \<lparr>DocumentID = 1, IsSnapped = True, SnapOffset = \<lparr>X = 700, Y = 200\<rparr>,
                 SnapEdge = SnapEdgeRight, LastPos = \<lparr>X = 800, Y = 300\<rparr>,
                 MoveTime = 1000000000\<rparr>
       = (SnapEdge \<lparr>DocumentID = 1, IsSnapped = True, SnapOffset = \<lparr>X = 700, Y = 200\<rparr>,
                 SnapEdge = SnapEdgeRight, LastPos = \<lparr>X = 800, Y = 300\<rparr>,
                 MoveTime = 1000000000\<rparr> \<noteq> SnapEdgeNone)"
proof -
  have e: "managedWindows exampleSnapped 1
        = Some \<lparr>DocumentID = 1, IsSnapped = True, SnapOffset = \<lparr>X = 700, Y = 200\<rparr>,
                 SnapEdge = SnapEdgeRight, LastPos = \<lparr>X = 800, Y = 300\<rparr>,
                 MoveTime = 1000000000\<rparr>"
    by (simp add: exampleSnapped_eq)
  from reachable_exampleSnapped e snapped_iff_edge [OF reachable_exampleSnapped e]
  show ?thesis by blast
qed

lemma SetSnapEnabled_off:
  assumes "registryOk s"
  shows "SetSnapEnabled False s =
           s\<lparr>snapEnabled := False,
             managedWindows := (\<lambda>documentID.
                map_option (\<lambda>windowInfo. windowInfo\<lparr>IsSnapped := False, SnapEdge := SnapEdgeNone\<rparr>)
                  (managedWindows s documentID))\<rparr>"
proof -
  have rel: "(if IsSnapped windowInfo
              then windowInfo\<lparr>IsSnapped := False, SnapEdge := SnapEdgeNone\<rparr> else windowInfo)
             = windowInfo\<lparr>IsSnapped := False, SnapEdge := SnapEdgeNone\<rparr>"
    if "managedWindows s documentID = Some windowInfo" for documentID windowInfo
  proof -
    from assms that have "infoOk (snapEnabled s) windowInfo" by (simp add: registryOk_def)
    then show ?thesis by (simp add: infoOk_def)
  qed
  have m: "map_option (\<lambda>windowInfo. if IsSnapped windowInfo
              then windowInfo\<lparr>IsSnapped := False, SnapEdge := SnapEdgeNone\<rparr> else windowInfo)
             (managedWindows s documentID)
           = map_option (\<lambda>windowInfo. windowInfo\<lparr>IsSnapped := False, SnapEdge := SnapEdgeNone\<rparr>)
             (managedWindows s documentID)" for documentID
    by (cases "managedWindows s documentID") (simp_all add: rel)
  show ?thesis
  proof (cases "snapEnabled s")
    case True
    then show ?thesis by (simp add: SetSnapEnabled_def m)
  next
    case False
    have keep: "map_option (\<lambda>windowInfo. windowInfo\<lparr>IsSnapped := False, SnapEdge := SnapEdgeNone\<rparr>)
             (managedWindows s documentID) = managedWindows s documentID" for documentID
    proof (cases "managedWindows s documentID")
      case None
      then show ?thesis by simp
    next
      case (Some windowInfo)
      from assms Some have "infoOk (snapEnabled s) windowInfo" by (simp add: registryOk_def)
      with False have "windowInfo\<lparr>IsSnapped := False, SnapEdge := SnapEdgeNone\<rparr> = windowInfo"
        by (cases windowInfo) (auto simp: infoOk_def)
      with Some show ?thesis by simp
    qed
    have "s\<lparr>snapEnabled := False, managedWindows := managedWindows s\<rparr> = s"
      using False by simp
    with False show ?thesis by (simp add: SetSnapEnabled_def keep)
  qed
qed

lemma SetSnapEnabled_on_after_off:
  "SetSnapEnabled True (SetSnapEnabled False s) = (SetSnapEnabled False s)\<lparr>snapEnabled := True\<rparr>"
  by (simp add: SetSnapEnabled_def Let_def)

text \<open>
  C7. \<open>SetSnapEnabled(false)\<close> sets \<open>IsSnapped = false\<close> and \<open>SnapEdge = SnapEdgeNone\<close> in
  every tracked window's entry and changes nothing else but the flag \<open>snapEnabled\<close>: the
  other fields of every entry, every window's position and the caches stay as they are.
  A following \<open>SetSnapEnabled(true)\<close> changes the flag only.
\<close>

theorem disabling_releases_without_moving:
  assumes "reachable s"
  shows "SetSnapEnabled False s =
           s\<lparr>snapEnabled := False,
             managedWindows := (\<lambda>documentID.
                map_option (\<lambda>windowInfo. windowInfo\<lparr>IsSnapped := False, SnapEdge := SnapEdgeNone\<rparr>)
                  (managedWindows s documentID))\<rparr>
       \<and> winPosition (SetSnapEnabled False s) = winPosition s
       \<and> SetSnapEnabled True (SetSnapEnabled False s)
           = (SetSnapEnabled False s)\<lparr>snapEnabled := True\<rparr>
       \<and> managedWindows (SetSnapEnabled True (SetSnapEnabled False s))
           = managedWindows (SetSnapEnabled False s)
       \<and> winPosition (SetSnapEnabled True (SetSnapEnabled False s)) = winPosition s"
proof -
  from assms have ok: "registryOk s" by (rule reachable_registryOk)
  note off = SetSnapEnabled_off [OF ok]
  have p: "winPosition (SetSnapEnabled False s) = winPosition s"
    by (simp add: off)
  note on = SetSnapEnabled_on_after_off [of s]
  have m: "managedWindows (SetSnapEnabled True (SetSnapEnabled False s))
           = managedWindows (SetSnapEnabled False s)"
    by (simp add: on)
  have q: "winPosition (SetSnapEnabled True (SetSnapEnabled False s)) = winPosition s"
    by (simp add: on p)
  from off p on m q show ?thesis by blast
qed

theorem disabling_releases_without_moving_witness:
  "reachable exampleSnapped
   \<and> managedWindows exampleSnapped 1
        = Some \<lparr>DocumentID = 1, IsSnapped = True, SnapOffset = \<lparr>X = 700, Y = 200\<rparr>,
                 SnapEdge = SnapEdgeRight, LastPos = \<lparr>X = 800, Y = 300\<rparr>,
                 MoveTime = 1000000000\<rparr>
   \<and> managedWindows (SetSnapEnabled False exampleSnapped) 1
        = Some \<lparr>DocumentID = 1, IsSnapped = False, SnapOffset = \<lparr>X = 700, Y = 200\<rparr>,
                 SnapEdge = SnapEdgeNone, LastPos = \<lparr>X = 800, Y = 300\<rparr>,
                 MoveTime = 1000000000\<rparr>
   \<and> winPosition (SetSnapEnabled False exampleSnapped) 1 = \<lparr>X = 800, Y = 300\<rparr>
   \<and> managedWindows (SetSnapEnabled True (SetSnapEnabled False exampleSnapped)) 1
        = Some \<lparr>DocumentID = 1, IsSnapped = False, SnapOffset = \<lparr>X = 700, Y = 200\<rparr>,
                 SnapEdge = SnapEdgeNone, LastPos = \<lparr>X = 800, Y = 300\<rparr>,
                 MoveTime = 1000000000\<rparr>
   \<and> winPosition (SetSnapEnabled True (SetSnapEnabled False exampleSnapped)) 1
        = \<lparr>X = 800, Y = 300\<rparr>"
proof -
  note t = disabling_releases_without_moving [OF reachable_exampleSnapped]
  have e: "managedWindows exampleSnapped 1
        = Some \<lparr>DocumentID = 1, IsSnapped = True, SnapOffset = \<lparr>X = 700, Y = 200\<rparr>,
                 SnapEdge = SnapEdgeRight, LastPos = \<lparr>X = 800, Y = 300\<rparr>,
                 MoveTime = 1000000000\<rparr>"
    and w: "winPosition exampleSnapped 1 = \<lparr>X = 800, Y = 300\<rparr>"
    by (simp_all add: exampleSnapped_eq)
  from t have off: "SetSnapEnabled False exampleSnapped =
           exampleSnapped\<lparr>snapEnabled := False,
             managedWindows := (\<lambda>documentID.
                map_option (\<lambda>windowInfo. windowInfo\<lparr>IsSnapped := False, SnapEdge := SnapEdgeNone\<rparr>)
                  (managedWindows exampleSnapped documentID))\<rparr>"
    by blast
  have m1: "managedWindows (SetSnapEnabled False exampleSnapped) 1
        = Some \<lparr>DocumentID = 1, IsSnapped = False, SnapOffset = \<lparr>X = 700, Y = 200\<rparr>,
                 SnapEdge = SnapEdgeNone, LastPos = \<lparr>X = 800, Y = 300\<rparr>,
                 MoveTime = 1000000000\<rparr>"
    unfolding off by (simp add: e)
  from t have "managedWindows (SetSnapEnabled True (SetSnapEnabled False exampleSnapped))
           = managedWindows (SetSnapEnabled False exampleSnapped)"
    and "winPosition (SetSnapEnabled False exampleSnapped) = winPosition exampleSnapped"
    and "winPosition (SetSnapEnabled True (SetSnapEnabled False exampleSnapped))
           = winPosition exampleSnapped"
    by blast+
  with m1 w e reachable_exampleSnapped show ?thesis by simp
qed

text \<open>
  C9. A configuration-change value that is nil or not a boolean is passed on as
  \<open>false\<close>, and a boolean as itself. At construction the default is different: when the
  configuration cannot be read, the service starts with snapping enabled.
\<close>

theorem config_value_defaults:
  "((\<forall>val. newValue \<noteq> AnyBool val)
      \<longrightarrow> onWindowSnapConfigChange oldValue newValue s = OnWindowSnapConfigChanged False s)
   \<and> onWindowSnapConfigChange oldValue (AnyBool enabled) s = OnWindowSnapConfigChanged enabled s
   \<and> snapEnabled (NewWindowSnapService (Inl err) mw wp wsz) = True
   \<and> snapEnabled (NewWindowSnapService (Inr config) mw wp wsz)
        = EnableWindowSnap (General config)"
  by (cases newValue)
     (auto simp: onWindowSnapConfigChange_def parseEnabled_def NewWindowSnapService_def)

theorem config_value_defaults_witness:
  "onWindowSnapConfigChange (AnyBool True) AnyNil exampleSnapped
     = OnWindowSnapConfigChanged False exampleSnapped
   \<and> onWindowSnapConfigChange (AnyBool True) (AnyString ''true'') exampleSnapped
     = OnWindowSnapConfigChanged False exampleSnapped
   \<and> snapEnabled (onWindowSnapConfigChange (AnyBool True) AnyNil exampleSnapped) = False
   \<and> snapEnabled exampleUnreadable = True"
proof -
  have a: "onWindowSnapConfigChange (AnyBool True) AnyNil exampleSnapped
     = OnWindowSnapConfigChanged False exampleSnapped"
    using config_value_defaults [of AnyNil "AnyBool True" exampleSnapped] by simp
  have b: "onWindowSnapConfigChange (AnyBool True) (AnyString ''true'') exampleSnapped
     = OnWindowSnapConfigChanged False exampleSnapped"
    using config_value_defaults [of "AnyString ''true''" "AnyBool True" exampleSnapped] by simp
  have c: "snapEnabled (onWindowSnapConfigChange (AnyBool True) AnyNil exampleSnapped) = False"
    unfolding a by (simp add: OnWindowSnapConfigChanged_def SetSnapEnabled_def exampleSnapped_eq)
  have d: "snapEnabled exampleUnreadable = True"
    unfolding exampleUnreadable_def
    using config_value_defaults [of AnyNil AnyNil exampleSnapped True "''config unreadable''"]
    by simp
  from a b c d show ?thesis by blast
qed

text \<open>
  C9, as stated, fails at construction: with an unreadable configuration the service
  starts with snapping enabled, not disabled.
\<close>

theorem unreadable_config_enables_snapping:
  "snapEnabled exampleUnreadable \<noteq> False"
  by (simp add: exampleUnreadable_def NewWindowSnapService_def)

lemma examplePulled_fields:
  "snapEnabled examplePulled"
  "isUpdatingPosition examplePulled 1 \<noteq> Some True"
  "managedWindows examplePulled 1
     = Some \<lparr>DocumentID = 1, IsSnapped = True, SnapOffset = \<lparr>X = 700, Y = 200\<rparr>,
             SnapEdge = SnapEdgeRight, LastPos = \<lparr>X = 800, Y = 300\<rparr>,
             MoveTime = 1000000000\<rparr>"
  "winPosition examplePulled 1 = \<lparr>X = 850, Y = 300\<rparr>"
  "lastMainWindowPos examplePulled = \<lparr>X = 100, Y = 100\<rparr>"
  "calculateAdaptiveThreshold examplePulled = 17"
  by (simp_all add: examplePulled_def userMoves_def exampleSnapped_eq
      calculateAdaptiveThreshold_def go_int_def)

text \<open>
  C1. What the code does on a move event of a snapped window (flag clear, position
  \<open>P\<close> different from \<open>LastPos\<close>): \<open>LastPos\<close> becomes \<open>P\<close> in either outcome, and the
  window is detached exactly when the Chebyshev distance of \<open>P\<close> from
  \<open>lastMainWindowPos + SnapOffset\<close> exceeds the adaptive threshold and
  \<open>now' - now < 40ms\<close>, where \<open>now\<close> is the time the event itself has just stored in
  \<open>MoveTime\<close>. The time of the previous move does not enter the decision.
\<close>

theorem snapped_move_detach_decision:
  assumes "snapEnabled s" and "isUpdatingPosition s documentID \<noteq> Some True"
    and "managedWindows s documentID = Some windowInfo"
    and "\<not> (X (winPosition s documentID) = X (LastPos windowInfo)
            \<and> Y (winPosition s documentID) = Y (LastPos windowInfo))"
    and "IsSnapped windowInfo"
  shows "managedWindows (onChildWindowMoved documentID now now' s) documentID =
           Some (if max \<bar>real_of_int (X (winPosition s documentID)
                                       - (X (lastMainWindowPos s) + X (SnapOffset windowInfo)))\<bar>
                        \<bar>real_of_int (Y (winPosition s documentID)
                                       - (Y (lastMainWindowPos s) + Y (SnapOffset windowInfo)))\<bar>
                      > real_of_int (calculateAdaptiveThreshold s)
                    \<and> now' - now < dragDetectionThreshold
                 then windowInfo\<lparr>MoveTime := now, IsSnapped := False, SnapEdge := SnapEdgeNone,
                                  LastPos := winPosition s documentID\<rparr>
                 else windowInfo\<lparr>MoveTime := now, LastPos := winPosition s documentID\<rparr>)"
  unfolding onChildWindowMoved_snapped [OF assms]
  by (simp add: handleSnappedWindow_def Let_def)

theorem snapped_move_detach_decision_witness:
  "managedWindows examplePulled 1
     = Some \<lparr>DocumentID = 1, IsSnapped = True, SnapOffset = \<lparr>X = 700, Y = 200\<rparr>,
             SnapEdge = SnapEdgeRight, LastPos = \<lparr>X = 800, Y = 300\<rparr>,
             MoveTime = 1000 * millisecond\<rparr>
   \<and> winPosition examplePulled 1 = \<lparr>X = 850, Y = 300\<rparr>
   \<and> 1200 * millisecond - 1000 * millisecond = 200 * millisecond
   \<and> managedWindows
        (onChildWindowMoved 1 (1200 * millisecond) (1200 * millisecond + 1000) examplePulled) 1
     = Some \<lparr>DocumentID = 1, IsSnapped = False, SnapOffset = \<lparr>X = 700, Y = 200\<rparr>,
             SnapEdge = SnapEdgeNone, LastPos = \<lparr>X = 850, Y = 300\<rparr>,
             MoveTime = 1200 * millisecond\<rparr>"
proof -
  have moved: "\<not> (X (winPosition examplePulled 1)
                     = X (LastPos \<lparr>DocumentID = 1, IsSnapped = True, SnapOffset = \<lparr>X = 700, Y = 200\<rparr>,
                            SnapEdge = SnapEdgeRight, LastPos = \<lparr>X = 800, Y = 300\<rparr>,
                            MoveTime = 1000000000\<rparr>)
                 \<and> Y (winPosition examplePulled 1)
                     = Y (LastPos \<lparr>DocumentID = 1, IsSnapped = True, SnapOffset = \<lparr>X = 700, Y = 200\<rparr>,
                            SnapEdge = SnapEdgeRight, LastPos = \<lparr>X = 800, Y = 300\<rparr>,
                            MoveTime = 1000000000\<rparr>))"
    by (simp add: examplePulled_fields)
  have sn: "IsSnapped \<lparr>DocumentID = 1, IsSnapped = True, SnapOffset = \<lparr>X = 700, Y = 200\<rparr>,
                            SnapEdge = SnapEdgeRight, LastPos = \<lparr>X = 800, Y = 300\<rparr>,
                            MoveTime = 1000000000\<rparr>"
    by simp
  note t = snapped_move_detach_decision [OF examplePulled_fields(1,2,3) moved sn,
      of "1200 * millisecond" "1200 * millisecond + 1000"]
  show ?thesis
    unfolding t
    by (simp add: examplePulled_fields millisecond_def dragDetectionThreshold_def)
qed

lemma onChildWindowMoved_settled:
  assumes "managedWindows s documentID = Some windowInfo"
    and "LastPos windowInfo = winPosition s documentID"
  shows "onChildWindowMoved documentID t t' s = s"
  using assms by (simp add: onChildWindowMoved_unmoved)

text \<open>
  C8. A child-window move event for a document whose flag in \<open>isUpdatingPosition\<close> is set
  changes nothing. The engine's own writes are made under that flag:
  \<open>window.SetPosition\<close> enters the window's listener, which returns at once, so the write
  is all that happens; hence \<open>handleUnsnappedWindow\<close> on an accepted candidate and
  \<open>updateSnappedWindowPosition\<close> give exactly what the write and their own bookkeeping
  give. A notification of such a write that arrives after the handler has returned
  changes nothing either, the window being where \<open>LastPos\<close> says.
\<close>

theorem engine_write_notification_ignored:
  "(isUpdatingPosition s documentID = Some True
      \<longrightarrow> onChildWindowMoved documentID now now' s = s
          \<and> SetPosition documentID x y now s = writePosition documentID x y s)
   \<and> (shouldSnapToMainWindow documentID currentPos lastMoveTime now' s = ((True, snapEdge), s1)
        \<and> calculateSnapPosition snapEdge currentPos documentID s1 = (targetPos, s2)
      \<longrightarrow> handleUnsnappedWindow documentID windowInfo currentPos lastMoveTime now' s
            = (True,
               windowInfo\<lparr>IsSnapped := True, SnapEdge := snapEdge,
                           SnapOffset := \<lparr>X = X targetPos - X (lastMainWindowPos s2),
                                          Y = Y targetPos - Y (lastMainWindowPos s2)\<rparr>,
                           LastPos := targetPos\<rparr>,
               s2\<lparr>managedWindows := (managedWindows s2)(documentID \<mapsto>
                      windowInfo\<lparr>IsSnapped := True, SnapEdge := snapEdge\<rparr>),
                   isUpdatingPosition := (isUpdatingPosition s2)(documentID \<mapsto> False),
                   winPosition := (winPosition s2)(documentID := targetPos)\<rparr>))
   \<and> (managedWindows s documentID = Some windowInfo \<and> documentID \<in> windowRefs s
      \<longrightarrow> updateSnappedWindowPosition windowInfo documentID now s
            = (windowInfo\<lparr>LastPos := \<lparr>X = X (lastMainWindowPos s) + X (SnapOffset windowInfo),
                                        Y = Y (lastMainWindowPos s) + Y (SnapOffset windowInfo)\<rparr>\<rparr>,
               s\<lparr>isUpdatingPosition := (isUpdatingPosition s)(documentID \<mapsto> False),
                 winPosition := (winPosition s)(documentID :=
                    \<lparr>X = X (lastMainWindowPos s) + X (SnapOffset windowInfo),
                     Y = Y (lastMainWindowPos s) + Y (SnapOffset windowInfo)\<rparr>)\<rparr>))
   \<and> (snapEnabled s \<and> isUpdatingPosition s documentID \<noteq> Some True
        \<and> managedWindows s documentID = Some windowInfo \<and> \<not> IsSnapped windowInfo
        \<and> \<not> (X (winPosition s documentID) = X (LastPos windowInfo)
              \<and> Y (winPosition s documentID) = Y (LastPos windowInfo))
        \<and> fst (fst (shouldSnapToMainWindow documentID (winPosition s documentID)
                       (MoveTime windowInfo) now' s))
      \<longrightarrow> onChildWindowMoved documentID t t' (onChildWindowMoved documentID now now' s)
            = onChildWindowMoved documentID now now' s)
   \<and> (reachable s \<and> snapEnabled s \<and> mainWindow s \<noteq> None
        \<and> managedWindows s documentID = Some windowInfo \<and> IsSnapped windowInfo
      \<longrightarrow> onChildWindowMoved documentID t t' (onMainWindowMoved now s) = onMainWindowMoved now s)"
proof (intro conjI impI)
  assume "isUpdatingPosition s documentID = Some True"
  then show "onChildWindowMoved documentID now now' s = s"
    by (rule onChildWindowMoved_guarded)
next
  assume "isUpdatingPosition s documentID = Some True"
  then show "SetPosition documentID x y now s = writePosition documentID x y s"
    by (rule SetPosition_guarded)
next
  assume a: "shouldSnapToMainWindow documentID currentPos lastMoveTime now' s = ((True, snapEdge), s1)
        \<and> calculateSnapPosition snapEdge currentPos documentID s1 = (targetPos, s2)"
  then show "handleUnsnappedWindow documentID windowInfo currentPos lastMoveTime now' s
            = (True,
               windowInfo\<lparr>IsSnapped := True, SnapEdge := snapEdge,
                           SnapOffset := \<lparr>X = X targetPos - X (lastMainWindowPos s2),
                                          Y = Y targetPos - Y (lastMainWindowPos s2)\<rparr>,
                           LastPos := targetPos\<rparr>,
               s2\<lparr>managedWindows := (managedWindows s2)(documentID \<mapsto>
                      windowInfo\<lparr>IsSnapped := True, SnapEdge := snapEdge\<rparr>),
                   isUpdatingPosition := (isUpdatingPosition s2)(documentID \<mapsto> False),
                   winPosition := (winPosition s2)(documentID := targetPos)\<rparr>)"
    by (simp add: handleUnsnappedWindow_accepted)
next
  assume "managedWindows s documentID = Some windowInfo \<and> documentID \<in> windowRefs s"
  then show "updateSnappedWindowPosition windowInfo documentID now s
            = (windowInfo\<lparr>LastPos := \<lparr>X = X (lastMainWindowPos s) + X (SnapOffset windowInfo),
                                        Y = Y (lastMainWindowPos s) + Y (SnapOffset windowInfo)\<rparr>\<rparr>,
               s\<lparr>isUpdatingPosition := (isUpdatingPosition s)(documentID \<mapsto> False),
                 winPosition := (winPosition s)(documentID :=
                    \<lparr>X = X (lastMainWindowPos s) + X (SnapOffset windowInfo),
                     Y = Y (lastMainWindowPos s) + Y (SnapOffset windowInfo)\<rparr>)\<rparr>)"
    by (simp add: updateSnappedWindowPosition_eq)
next
  assume b: "snapEnabled s \<and> isUpdatingPosition s documentID \<noteq> Some True
        \<and> managedWindows s documentID = Some windowInfo \<and> \<not> IsSnapped windowInfo
        \<and> \<not> (X (winPosition s documentID) = X (LastPos windowInfo)
              \<and> Y (winPosition s documentID) = Y (LastPos windowInfo))
        \<and> fst (fst (shouldSnapToMainWindow documentID (winPosition s documentID)
                       (MoveTime windowInfo) now' s))"
  from b have f: "snapEnabled s" "isUpdatingPosition s documentID \<noteq> Some True"
    "managedWindows s documentID = Some windowInfo"
    "\<not> (X (winPosition s documentID) = X (LastPos windowInfo)
            \<and> Y (winPosition s documentID) = Y (LastPos windowInfo))"
    "\<not> IsSnapped windowInfo"
    by blast+
  from b obtain e u where r: "shouldSnapToMainWindow documentID (winPosition s documentID)
      (MoveTime windowInfo) now' s = ((True, e), u)"
    by (cases "shouldSnapToMainWindow documentID (winPosition s documentID)
      (MoveTime windowInfo) now' s") auto
  obtain p v where c: "calculateSnapPosition e (winPosition s documentID) documentID u = (p, v)"
    by (cases "calculateSnapPosition e (winPosition s documentID) documentID u")
  note acc = onChildWindowMoved_accepted [OF f r c, of now]
  have m: "managedWindows (onChildWindowMoved documentID now now' s) documentID
             = Some (windowInfo\<lparr>MoveTime := now, IsSnapped := True, SnapEdge := e,
                       SnapOffset := \<lparr>X = X p - X (lastMainWindowPos v),
                                      Y = Y p - Y (lastMainWindowPos v)\<rparr>,
                       LastPos := p\<rparr>)"
    by (simp add: acc)
  have q: "winPosition (onChildWindowMoved documentID now now' s) documentID = p"
    by (simp add: acc)
  show "onChildWindowMoved documentID t t' (onChildWindowMoved documentID now now' s)
          = onChildWindowMoved documentID now now' s"
    by (rule onChildWindowMoved_settled [OF m]) (simp add: q)
next
  assume a: "reachable s \<and> snapEnabled s \<and> mainWindow s \<noteq> None
        \<and> managedWindows s documentID = Some windowInfo \<and> IsSnapped windowInfo"
  then obtain pos sz where mw: "mainWindow s = Some (pos, sz)" by auto
  from a have on: "snapEnabled s" and w: "managedWindows s documentID = Some windowInfo"
    and sn: "IsSnapped windowInfo" by simp_all
  from a have "registryOk s" by (simp add: reachable_registryOk)
  with w have r: "documentID \<in> windowRefs s" by (auto simp: registryOk_def)
  have m: "managedWindows (onMainWindowMoved now s) documentID
             = Some (windowInfo\<lparr>LastPos := \<lparr>X = X pos + X (SnapOffset windowInfo),
                                               Y = Y pos + Y (SnapOffset windowInfo)\<rparr>\<rparr>)"
    by (simp add: onMainWindowMoved_entry [OF on mw] w sn r)
  have q: "winPosition (onMainWindowMoved now s) documentID
             = \<lparr>X = X pos + X (SnapOffset windowInfo), Y = Y pos + Y (SnapOffset windowInfo)\<rparr>"
    by (simp add: onMainWindowMoved_position [OF on mw] w sn r)
  show "onChildWindowMoved documentID t t' (onMainWindowMoved now s) = onMainWindowMoved now s"
    by (rule onChildWindowMoved_settled [OF m]) (simp add: q)
qed

theorem engine_write_notification_ignored_witness:
  "isUpdatingPosition exampleGuarded 1 = Some True
   \<and> winPosition exampleGuarded 1 = \<lparr>X = 830, Y = 315\<rparr>
   \<and> map_option LastPos (managedWindows exampleGuarded 1) = Some \<lparr>X = 800, Y = 300\<rparr>
   \<and> onChildWindowMoved 1 (1200 * millisecond) (1200 * millisecond) exampleGuarded = exampleGuarded
   \<and> SetPosition 1 830 315 (1200 * millisecond)
         (exampleSnapped\<lparr>isUpdatingPosition := (isUpdatingPosition exampleSnapped)(1 \<mapsto> True)\<rparr>)
        = exampleGuarded
   \<and> fst (handleUnsnappedWindow 1
             \<lparr>DocumentID = 1, IsSnapped = False, SnapOffset = \<lparr>X = 0, Y = 0\<rparr>,
               SnapEdge = SnapEdgeNone, LastPos = \<lparr>X = 0, Y = 0\<rparr>, MoveTime = 1000 * millisecond\<rparr>
             \<lparr>X = 805, Y = 300\<rparr> 0 (1000 * millisecond) exampleDragged)
   \<and> snd (snd (handleUnsnappedWindow 1
             \<lparr>DocumentID = 1, IsSnapped = False, SnapOffset = \<lparr>X = 0, Y = 0\<rparr>,
               SnapEdge = SnapEdgeNone, LastPos = \<lparr>X = 0, Y = 0\<rparr>, MoveTime = 1000 * millisecond\<rparr>
             \<lparr>X = 805, Y = 300\<rparr> 0 (1000 * millisecond) exampleDragged))
        = exampleDragged
            \<lparr>managedWindows := (managedWindows exampleDragged)(1 \<mapsto>
               \<lparr>DocumentID = 1, IsSnapped = True, SnapOffset = \<lparr>X = 0, Y = 0\<rparr>,
                 SnapEdge = SnapEdgeRight, LastPos = \<lparr>X = 0, Y = 0\<rparr>,
                 MoveTime = 1000 * millisecond\<rparr>),
             isUpdatingPosition := (isUpdatingPosition exampleDragged)(1 \<mapsto> False),
             winPosition := (winPosition exampleDragged)(1 := \<lparr>X = 800, Y = 300\<rparr>)\<rparr>
   \<and> onChildWindowMoved 1 (1500 * millisecond) (1500 * millisecond) exampleSnapped = exampleSnapped
   \<and> winPosition (onMainWindowMoved (2500 * millisecond) (primaryMoves 130 115 exampleSnapped)) 1
        = \<lparr>X = 830, Y = 315\<rparr>
   \<and> onChildWindowMoved 1 (3000 * millisecond) (3000 * millisecond)
         (onMainWindowMoved (2500 * millisecond) (primaryMoves 130 115 exampleSnapped))
        = onMainWindowMoved (2500 * millisecond) (primaryMoves 130 115 exampleSnapped)
   \<and> snd (updateSnappedWindowPosition
              \<lparr>DocumentID = 1, IsSnapped = True, SnapOffset = \<lparr>X = 700, Y = 200\<rparr>,
                SnapEdge = SnapEdgeRight, LastPos = \<lparr>X = 800, Y = 300\<rparr>,
                MoveTime = 1000000000\<rparr>
              1 (2500 * millisecond) (UpdateMainWindowCache (primaryMoves 130 115 exampleSnapped)))
        = (UpdateMainWindowCache (primaryMoves 130 115 exampleSnapped))
            \<lparr>isUpdatingPosition :=
               (isUpdatingPosition (UpdateMainWindowCache (primaryMoves 130 115 exampleSnapped)))
                 (1 \<mapsto> False),
             winPosition :=
               (winPosition (UpdateMainWindowCache (primaryMoves 130 115 exampleSnapped)))
                 (1 := \<lparr>X = 830, Y = 315\<rparr>)\<rparr>"
proof -
  let ?flagged = "exampleSnapped\<lparr>isUpdatingPosition := (isUpdatingPosition exampleSnapped)(1 \<mapsto> True)\<rparr>"
  let ?fresh = "\<lparr>DocumentID = 1, IsSnapped = False, SnapOffset = \<lparr>X = 0, Y = 0\<rparr>,
               SnapEdge = SnapEdgeNone, LastPos = \<lparr>X = 0, Y = 0\<rparr>, MoveTime = 0\<rparr>"
  let ?stamped = "\<lparr>DocumentID = 1, IsSnapped = False, SnapOffset = \<lparr>X = 0, Y = 0\<rparr>,
               SnapEdge = SnapEdgeNone, LastPos = \<lparr>X = 0, Y = 0\<rparr>, MoveTime = 1000 * millisecond\<rparr>"
  let ?snapped = "\<lparr>DocumentID = 1, IsSnapped = True, SnapOffset = \<lparr>X = 700, Y = 200\<rparr>,
                SnapEdge = SnapEdgeRight, LastPos = \<lparr>X = 800, Y = 300\<rparr>,
                MoveTime = 1000000000\<rparr>"
  let ?m = "primaryMoves 130 115 exampleSnapped"
  let ?c = "UpdateMainWindowCache ?m"
  have g: "isUpdatingPosition exampleGuarded 1 = Some True"
    "winPosition exampleGuarded 1 = \<lparr>X = 830, Y = 315\<rparr>"
    "map_option LastPos (managedWindows exampleGuarded 1) = Some \<lparr>X = 800, Y = 300\<rparr>"
    by (simp_all add: exampleGuarded_def writePosition_def exampleSnapped_eq)
  have fl: "isUpdatingPosition ?flagged 1 = Some True" by simp
  have a1: "onChildWindowMoved 1 (1200 * millisecond) (1200 * millisecond) exampleGuarded = exampleGuarded"
    using engine_write_notification_ignored [where s = exampleGuarded and documentID = 1
        and now = "1200 * millisecond" and now' = "1200 * millisecond"] g(1)
    by blast
  have a2: "SetPosition 1 830 315 (1200 * millisecond) ?flagged = exampleGuarded"
    using engine_write_notification_ignored [where s = ?flagged and documentID = 1
        and now = "1200 * millisecond" and x = 830 and y = 315] fl
    unfolding exampleGuarded_def by blast
  have b: "handleUnsnappedWindow 1 ?stamped \<lparr>X = 805, Y = 300\<rparr> 0 (1000 * millisecond) exampleDragged
            = (True,
               ?stamped\<lparr>IsSnapped := True, SnapEdge := SnapEdgeRight,
                     SnapOffset := \<lparr>X = X \<lparr>X = 800, Y = 300\<rparr> - X (lastMainWindowPos exampleDragged),
                                    Y = Y \<lparr>X = 800, Y = 300\<rparr> - Y (lastMainWindowPos exampleDragged)\<rparr>,
                     LastPos := \<lparr>X = 800, Y = 300\<rparr>\<rparr>,
               exampleDragged\<lparr>managedWindows := (managedWindows exampleDragged)(1 \<mapsto>
                      ?stamped\<lparr>IsSnapped := True, SnapEdge := SnapEdgeRight\<rparr>),
                   isUpdatingPosition := (isUpdatingPosition exampleDragged)(1 \<mapsto> False),
                   winPosition := (winPosition exampleDragged)(1 := \<lparr>X = 800, Y = 300\<rparr>)\<rparr>)"
    using engine_write_notification_ignored [where s = exampleDragged and documentID = 1
        and currentPos = "\<lparr>X = 805, Y = 300\<rparr>" and lastMoveTime = 0
        and now' = "1000 * millisecond" and snapEdge = SnapEdgeRight and ?s1.0 = exampleDragged
        and targetPos = "\<lparr>X = 800, Y = 300\<rparr>" and ?s2.0 = exampleDragged and windowInfo = ?stamped]
      exampleDragged_decision exampleDragged_target
    by blast
  have moved: "\<not> (X (winPosition exampleDragged 1) = X (LastPos ?fresh)
                  \<and> Y (winPosition exampleDragged 1) = Y (LastPos ?fresh))"
    by (simp add: exampleDragged_fields)
  have dec: "fst (fst (shouldSnapToMainWindow 1 (winPosition exampleDragged 1) (MoveTime ?fresh)
                        (1000 * millisecond) exampleDragged))"
    using exampleDragged_decision by (simp add: exampleDragged_fields)
  have d: "onChildWindowMoved 1 (1500 * millisecond) (1500 * millisecond) exampleSnapped = exampleSnapped"
    unfolding exampleSnapped_def
    using engine_write_notification_ignored [where s = exampleDragged and documentID = 1
        and windowInfo = ?fresh and now = "1000 * millisecond" and now' = "1000 * millisecond"
        and t = "1500 * millisecond" and t' = "1500 * millisecond"]
      exampleDragged_fields(1,2,3) moved dec
    by simp
  have fm: "snapEnabled ?m" "mainWindow ?m = Some (\<lparr>X = 130, Y = 115\<rparr>, (700, 800))"
    "managedWindows ?m 1 = Some ?snapped" "windowRefs ?m = {1}"
    by (simp_all add: primaryMoves_def exampleSnapped_eq)
  have rm: "reachable ?m" by (intro reachable_primaryMoves reachable_exampleSnapped)
  have e: "onChildWindowMoved 1 (3000 * millisecond) (3000 * millisecond)
         (onMainWindowMoved (2500 * millisecond) ?m) = onMainWindowMoved (2500 * millisecond) ?m"
    using engine_write_notification_ignored [where s = ?m and documentID = 1
        and windowInfo = ?snapped and now = "2500 * millisecond"
        and t = "3000 * millisecond" and t' = "3000 * millisecond"]
      rm fm
    by simp
  have p: "winPosition (onMainWindowMoved (2500 * millisecond) ?m) 1 = \<lparr>X = 830, Y = 315\<rparr>"
    by (simp add: onMainWindowMoved_position [OF fm(1,2)] fm)
  have fc: "managedWindows ?c 1 = Some ?snapped" "1 \<in> windowRefs ?c"
    "lastMainWindowPos ?c = \<lparr>X = 130, Y = 115\<rparr>"
    by (simp_all add: UpdateMainWindowCache_def updateMainWindowCacheLocked_def primaryMoves_def
        exampleSnapped_eq)
  have c: "snd (updateSnappedWindowPosition ?snapped 1 (2500 * millisecond) ?c)
        = ?c\<lparr>isUpdatingPosition := (isUpdatingPosition ?c)(1 \<mapsto> False),
              winPosition := (winPosition ?c)(1 := \<lparr>X = 830, Y = 315\<rparr>)\<rparr>"
    using engine_write_notification_ignored [where s = ?c and documentID = 1
        and windowInfo = ?snapped and now = "2500 * millisecond"] fc
    by simp
  from g a1 a2 b d p e c show ?thesis
    by simp
qed

section \<open>Attaching a window\<close>














section \<open>The choice of a snap candidate\<close>

lemma exampleDragged_lists:
  "candidateCorners 1 currentPos exampleDragged
     = cornerChecks \<lparr>X = 100, Y = 100\<rparr> (700, 800) currentPos (300, 200)"
  "candidateEdges 1 currentPos exampleDragged
     = edgeChecks \<lparr>X = 100, Y = 100\<rparr> (700, 800) currentPos (300, 200)"
proof -
  have r: "primaryRefreshed exampleDragged = exampleDragged"
    by (simp add: primaryRefreshed_def exampleDragged_eq)
  have g: "getWindowSizeCached 1 exampleDragged = ((300, 200), exampleDragged)"
    by (simp add: getWindowSizeCached_def exampleDragged_eq)
  have m: "lastMainWindowPos exampleDragged = \<lparr>X = 100, Y = 100\<rparr>"
    "lastMainWindowSize exampleDragged = (700, 800)"
    by (simp_all add: exampleDragged_eq)
  show "candidateCorners 1 currentPos exampleDragged
     = cornerChecks \<lparr>X = 100, Y = 100\<rparr> (700, 800) currentPos (300, 200)"
    by (simp add: candidateCorners_def r g m)
  show "candidateEdges 1 currentPos exampleDragged
     = edgeChecks \<lparr>X = 100, Y = 100\<rparr> (700, 800) currentPos (300, 200)"
    by (simp add: candidateEdges_def r g m)
qed

text \<open>Gaps below \<open>2^31\<close> in absolute value have a sum of squares that fits.\<close>

lemma squaresFit_gaps:
  assumes "\<bar>dx\<bar> < 2 ^ 31" and "\<bar>dy\<bar> < 2 ^ 31"
  shows "squaresFit (e, dx, dy)"
proof -
  have sq: "a * a < 2 ^ 62" if "\<bar>a\<bar> < 2 ^ 31" for a :: int
  proof -
    have "\<bar>a\<bar> * \<bar>a\<bar> < 2 ^ 31 * 2 ^ 31"
      using that by (intro mult_strict_mono) simp_all
    then show ?thesis by simp
  qed
  from sq [OF assms(1)] sq [OF assms(2)] show ?thesis
    by (simp add: squaresFit_def)
qed

lemma exampleFar_eq:
  "exampleFar =
     \<lparr> mainWindow = Some (\<lparr>X = 2147483647, Y = 100\<rparr>, (700, 800)),
       winPosition = (\<lambda>documentID. \<lparr>X = 0, Y = 0\<rparr>)(1 := \<lparr>X = - 2147482949, Y = - 100\<rparr>),
       winSize = (\<lambda>documentID. (300, 200)),
       snapEnabled = True, baseThresholdRatio = 0.025, minThreshold = 8, maxThreshold = 40,
       lastMainWindowPos = \<lparr>X = 2147483647, Y = 100\<rparr>, lastMainWindowSize = (700, 800),
       managedWindows = [1 \<mapsto> \<lparr>DocumentID = 1, IsSnapped = False, SnapOffset = \<lparr>X = 0, Y = 0\<rparr>,
                                  SnapEdge = SnapEdgeNone, LastPos = \<lparr>X = 0, Y = 0\<rparr>, MoveTime = 0\<rparr>],
       windowRefs = {1}, windowSizeCache = [1 \<mapsto> (300, 200)],
       isUpdatingPosition = Map.empty \<rparr>"
  by (simp add: exampleFar_def exampleFarStart_def userMoves_def exampleConfig_def RegisterWindow_def
      UpdateMainWindowCache_def updateMainWindowCacheLocked_def NewWindowSnapService_def
      updateWindowSizeCacheLocked_def)

lemma exampleFar_candidates:
  "candidateState 1 exampleFar = exampleFar"
  "candidateThreshold 1 exampleFar = 17"
  "candidateCorners 1 \<lparr>X = - 2147482949, Y = - 100\<rparr> exampleFar =
     [(SnapEdgeTopRight, 4294967296, 0), (SnapEdgeBottomRight, 4294967296, 1000),
      (SnapEdgeBottomLeft, 4294966296, 1000), (SnapEdgeTopLeft, 4294966296, 0)]"
  "candidateEdges 1 \<lparr>X = - 2147482949, Y = - 100\<rparr> exampleFar =
     [(SnapEdgeRight, 4294967296), (SnapEdgeLeft, 4294966296), (SnapEdgeBottom, 1000),
      (SnapEdgeTop, 0)]"
proof -
  have r: "primaryRefreshed exampleFar = exampleFar"
    by (simp add: primaryRefreshed_def exampleFar_eq)
  have g: "getWindowSizeCached 1 exampleFar = ((300, 200), exampleFar)"
    by (simp add: getWindowSizeCached_def exampleFar_eq)
  show c: "candidateState 1 exampleFar = exampleFar"
    by (simp add: candidateState_def r g)
  have "calculateAdaptiveThreshold exampleFar = 17"
    by (simp add: calculateAdaptiveThreshold_def go_int_def exampleFar_eq)
  then show "candidateThreshold 1 exampleFar = 17"
    by (simp add: candidateThreshold_def c)
  have m: "lastMainWindowPos exampleFar = \<lparr>X = 2147483647, Y = 100\<rparr>"
    "lastMainWindowSize exampleFar = (700, 800)"
    by (simp_all add: exampleFar_eq)
  show "candidateCorners 1 \<lparr>X = - 2147482949, Y = - 100\<rparr> exampleFar =
     [(SnapEdgeTopRight, 4294967296, 0), (SnapEdgeBottomRight, 4294967296, 1000),
      (SnapEdgeBottomLeft, 4294966296, 1000), (SnapEdgeTopLeft, 4294966296, 0)]"
    by (simp add: candidateCorners_def r g m cornerChecks_def)
  show "candidateEdges 1 \<lparr>X = - 2147482949, Y = - 100\<rparr> exampleFar =
     [(SnapEdgeRight, 4294967296), (SnapEdgeLeft, 4294966296), (SnapEdgeBottom, 1000),
      (SnapEdgeTop, 0)]"
    by (simp add: candidateEdges_def r g m edgeChecks_def)
qed

lemma exampleFar_decision:
  "shouldSnapToMainWindow 1 \<lparr>X = - 2147482949, Y = - 100\<rparr> 0 (1000 * millisecond) exampleFar
     = ((True, SnapEdgeTopRight), exampleFar)"
proof -
  have t: "\<not> 1000 * millisecond - 0 < debounceThreshold"
    by (simp add: debounceThreshold_def millisecond_def)
  have w: "cornerSquares (SnapEdgeTopRight, 4294967296, 0) = 0"
    "cornerSquares (SnapEdgeBottomRight, 4294967296, 1000) = 1000000"
    "cornerSquares (SnapEdgeBottomLeft, 4294966296, 1000) = - 8589932592000"
    "cornerSquares (SnapEdgeTopLeft, 4294966296, 0) = - 8589933592000"
    by (simp_all add: cornerSquares_def wrapInt_def)
  have far: "sqrt 1000000 = 1000"
    by (rule real_sqrt_unique) simp_all
  have k: "cornerWithin (51 / 2) (SnapEdgeTopRight, 4294967296, 0)"
    "cornerDist (SnapEdgeTopRight, 4294967296, 0) = 0"
    "\<not> cornerWithin (51 / 2) (SnapEdgeBottomRight, 4294967296, 1000)"
    "\<not> cornerWithin (51 / 2) (SnapEdgeBottomLeft, 4294966296, 1000)"
    "\<not> cornerWithin (51 / 2) (SnapEdgeTopLeft, 4294966296, 0)"
    by (simp_all add: cornerWithin_def cornerDist_def w far)
  have c: "cornerLoop (17 * 1.5) [(SnapEdgeTopRight, 4294967296, 0), (SnapEdgeBottomRight, 4294967296, 1000),
      (SnapEdgeBottomLeft, 4294966296, 1000), (SnapEdgeTopLeft, 4294966296, 0)] None
      = Some \<lparr>edge = SnapEdgeTopRight, distance = 0, priority = 1\<rparr>"
    by (simp add: cornerLoop_step k del: cornerLoop.simps(2))
  show ?thesis
    unfolding shouldSnapToMainWindow_evaluated [OF t] exampleFar_candidates c
    by simp
qed

lemma reachable_exampleFar: "reachable exampleFar"
  unfolding exampleFar_def exampleFarStart_def
  by (intro reachable_userMoves reachable.register reachable.update_cache reachable.construct)

text \<open>
  C2, as stated, fails. The sum of the squares of the two gap components is computed in
  machine integers and wraps around. Here the primary, \<open>700 \<times> 800\<close>, is at
  \<open>(2147483647, 100)\<close> and the window, \<open>300 \<times> 200\<close>, at \<open>(-2147482949, -100)\<close>: the
  horizontal gap to the primary's right edge is \<open>2^32\<close>, its square wraps to \<open>0\<close>, and
  the vertical gap to the top edge is \<open>0\<close>. The threshold is \<open>17\<close> and the corner
  threshold \<open>25.5\<close>. No corner is within the corner threshold by its Euclidean distance,
  and the edge \<open>Top\<close> is, with gap \<open>0\<close>; yet the corner \<open>TopRight\<close> is chosen.
\<close>

theorem wrapped_squares_choose_far_corner:
  "reachable exampleFar
   \<and> winPosition exampleFar 1 = \<lparr>X = - 2147482949, Y = - 100\<rparr>
   \<and> candidateThreshold 1 exampleFar = 17
   \<and> candidateCorners 1 \<lparr>X = - 2147482949, Y = - 100\<rparr> exampleFar
        = [(SnapEdgeTopRight, 4294967296, 0), (SnapEdgeBottomRight, 4294967296, 1000),
           (SnapEdgeBottomLeft, 4294966296, 1000), (SnapEdgeTopLeft, 4294966296, 0)]
   \<and> candidateEdges 1 \<lparr>X = - 2147482949, Y = - 100\<rparr> exampleFar
        = [(SnapEdgeRight, 4294967296), (SnapEdgeLeft, 4294966296), (SnapEdgeBottom, 1000),
           (SnapEdgeTop, 0)]
   \<and> \<not> euclideanDistance (SnapEdgeTopRight, 4294967296, 0) \<le> 17 * 1.5
   \<and> \<not> euclideanDistance (SnapEdgeBottomRight, 4294967296, 1000) \<le> 17 * 1.5
   \<and> \<not> euclideanDistance (SnapEdgeBottomLeft, 4294966296, 1000) \<le> 17 * 1.5
   \<and> \<not> euclideanDistance (SnapEdgeTopLeft, 4294966296, 0) \<le> 17 * 1.5
   \<and> fst (shouldSnapToMainWindow 1 \<lparr>X = - 2147482949, Y = - 100\<rparr> 0 (1000 * millisecond) exampleFar)
        = (True, SnapEdgeTopRight)"
proof -
  have p: "winPosition exampleFar 1 = \<lparr>X = - 2147482949, Y = - 100\<rparr>"
    by (simp add: exampleFar_eq)
  have e: "\<not> euclideanDistance (SnapEdgeTopRight, 4294967296, 0) \<le> 17 * 1.5"
    "\<not> euclideanDistance (SnapEdgeBottomRight, 4294967296, 1000) \<le> 17 * 1.5"
    "\<not> euclideanDistance (SnapEdgeBottomLeft, 4294966296, 1000) \<le> 17 * 1.5"
    "\<not> euclideanDistance (SnapEdgeTopLeft, 4294966296, 0) \<le> 17 * 1.5"
    by (simp_all add: euclideanDistance_le euclideanDistance_mult_le power2_eq_square)
  have d: "fst (shouldSnapToMainWindow 1 \<lparr>X = - 2147482949, Y = - 100\<rparr> 0 (1000 * millisecond) exampleFar)
        = (True, SnapEdgeTopRight)"
    by (simp add: exampleFar_decision)
  from reachable_exampleFar p exampleFar_candidates(2,3,4) e d show ?thesis
    by blast
qed

text \<open>
  C2, amended. Snap-candidate evaluation, once the debounce test has passed, where for
  each corner the sum of the squares of its two gap components is below \<open>2^63\<close> (as it
  is when both gaps are below \<open>2^31\<close> in absolute value). The corner checks carry the
  two gap components, their distance is Euclidean, and the corner threshold is
  \<open>1.5 * threshold\<close>. If some corner is within the corner threshold, the result is a
  corner within it of minimal distance among them. Only if no corner is within it are
  the edges looked at: then, if some edge's absolute gap is within the threshold, the
  result is an edge within it of minimal gap. If neither a corner nor an edge is within
  its threshold, there is no snap.
\<close>

theorem snap_candidate_choice:
  assumes "\<not> now' - lastMoveTime < debounceThreshold"
    and "\<forall>c \<in> set (candidateCorners documentID currentPos s). squaresFit c"
  shows "((\<exists>c \<in> set (candidateCorners documentID currentPos s).
             euclideanDistance c \<le> candidateThreshold documentID s * 1.5)
          \<longrightarrow> (\<exists>c \<in> set (candidateCorners documentID currentPos s).
                 fst (shouldSnapToMainWindow documentID currentPos lastMoveTime now' s) = (True, fst c)
                 \<and> isCorner (fst c)
                 \<and> euclideanDistance c \<le> candidateThreshold documentID s * 1.5
                 \<and> (\<forall>c' \<in> set (candidateCorners documentID currentPos s).
                       euclideanDistance c' \<le> candidateThreshold documentID s * 1.5
                       \<longrightarrow> euclideanDistance c \<le> euclideanDistance c')))
       \<and> ((\<forall>c \<in> set (candidateCorners documentID currentPos s).
              \<not> euclideanDistance c \<le> candidateThreshold documentID s * 1.5)
           \<and> (\<exists>e \<in> set (candidateEdges documentID currentPos s).
                 snd e \<le> candidateThreshold documentID s)
          \<longrightarrow> (\<exists>e \<in> set (candidateEdges documentID currentPos s).
                 fst (shouldSnapToMainWindow documentID currentPos lastMoveTime now' s) = (True, fst e)
                 \<and> isEdge (fst e)
                 \<and> snd e \<le> candidateThreshold documentID s
                 \<and> (\<forall>e' \<in> set (candidateEdges documentID currentPos s).
                       snd e' \<le> candidateThreshold documentID s \<longrightarrow> snd e \<le> snd e')))
       \<and> ((\<forall>c \<in> set (candidateCorners documentID currentPos s).
              \<not> euclideanDistance c \<le> candidateThreshold documentID s * 1.5)
           \<and> (\<forall>e \<in> set (candidateEdges documentID currentPos s).
                 \<not> snd e \<le> candidateThreshold documentID s)
          \<longrightarrow> fst (shouldSnapToMainWindow documentID currentPos lastMoveTime now' s)
                = (False, SnapEdgeNone))"
proof -
  let ?cs = "candidateCorners documentID currentPos s"
  let ?es = "candidateEdges documentID currentPos s"
  let ?t = "candidateThreshold documentID s"
  let ?r = "fst (shouldSnapToMainWindow documentID currentPos lastMoveTime now' s)"
  note ev = shouldSnapToMainWindow_evaluated [OF assms(1), of documentID currentPos s]
  have within: "cornerWithin thr c = (euclideanDistance c \<le> thr)" if "c \<in> set ?cs" for c thr
    using assms(2) that by (simp add: squaresFit_cornerWithin)
  have dist: "cornerDist c = euclideanDistance c" if "c \<in> set ?cs" for c
    using assms(2) that by (simp add: squaresFit_cornerDist)
  have corner: "\<exists>c \<in> set ?cs. ?r = (True, fst c) \<and> isCorner (fst c) \<and> euclideanDistance c \<le> ?t * 1.5
                  \<and> (\<forall>c' \<in> set ?cs. euclideanDistance c' \<le> ?t * 1.5
                        \<longrightarrow> euclideanDistance c \<le> euclideanDistance c')"
    if some: "\<exists>c \<in> set ?cs. euclideanDistance c \<le> ?t * 1.5"
  proof -
    from some have "cornerLoop (?t * 1.5) ?cs None \<noteq> None"
      using within by (auto simp: cornerLoop_None)
    then obtain b where b: "cornerLoop (?t * 1.5) ?cs None = Some b" by blast
    from cornerLoop_Some [OF b] obtain c where c: "c \<in> set ?cs" "edge b = fst c"
        "distance b = cornerDist c" "cornerWithin (?t * 1.5) c"
      and least: "\<forall>c' \<in> set ?cs. cornerWithin (?t * 1.5) c' \<longrightarrow> distance b \<le> cornerDist c'"
      by auto
    have r: "?r = (True, fst c)" using ev b c(2) by simp
    have k: "isCorner (fst c)"
      using c(1) by (auto simp: candidateCorners_def Let_def dest: cornerChecks_edges)
    have w: "euclideanDistance c \<le> ?t * 1.5"
      using c(1,4) within by simp
    have l: "\<forall>c' \<in> set ?cs. euclideanDistance c' \<le> ?t * 1.5
                \<longrightarrow> euclideanDistance c \<le> euclideanDistance c'"
      using least c(1,3) within dist by simp
    from c(1) r k w l show ?thesis by blast
  qed
  have edge: "\<exists>e \<in> set ?es. ?r = (True, fst e) \<and> isEdge (fst e) \<and> snd e \<le> ?t
                  \<and> (\<forall>e' \<in> set ?es. snd e' \<le> ?t \<longrightarrow> snd e \<le> snd e')"
    if none: "\<forall>c \<in> set ?cs. \<not> euclideanDistance c \<le> ?t * 1.5"
      and some: "\<exists>e \<in> set ?es. snd e \<le> ?t"
  proof -
    from none have n: "cornerLoop (?t * 1.5) ?cs None = None"
      using within by (simp add: cornerLoop_None)
    from some have "edgeLoop ?t ?es None \<noteq> None"
      by (simp add: edgeLoop_None)
    then obtain b where b: "edgeLoop ?t ?es None = Some b" by blast
    from edgeLoop_Some [OF b] obtain e where e: "e \<in> set ?es" "edge b = fst e"
        "distance b = snd e" "snd e \<le> ?t"
      and least: "\<forall>e' \<in> set ?es. snd e' \<le> ?t \<longrightarrow> distance b \<le> snd e'"
      by auto
    have "?r = (True, fst e)" using ev n b e(2) by simp
    moreover have "isEdge (fst e)"
      using e(1) by (auto simp: candidateEdges_def Let_def dest: edgeChecks_edges)
    ultimately show ?thesis using e least by auto
  qed
  have neither: "?r = (False, SnapEdgeNone)"
    if none: "\<forall>c \<in> set ?cs. \<not> euclideanDistance c \<le> ?t * 1.5"
      and none': "\<forall>e \<in> set ?es. \<not> snd e \<le> ?t"
  proof -
    from none have n: "cornerLoop (?t * 1.5) ?cs None = None"
      using within by (simp add: cornerLoop_None)
    from none' have n': "edgeLoop ?t ?es None = None"
      by (simp add: edgeLoop_None)
    show ?thesis using ev n n' by simp
  qed
  show ?thesis
  proof (intro conjI impI)
    assume "\<exists>c \<in> set ?cs. euclideanDistance c \<le> ?t * 1.5"
    then show "\<exists>c \<in> set ?cs. ?r = (True, fst c) \<and> isCorner (fst c) \<and> euclideanDistance c \<le> ?t * 1.5
                  \<and> (\<forall>c' \<in> set ?cs. euclideanDistance c' \<le> ?t * 1.5
                        \<longrightarrow> euclideanDistance c \<le> euclideanDistance c')"
      by (rule corner)
  next
    assume a: "(\<forall>c \<in> set ?cs. \<not> euclideanDistance c \<le> ?t * 1.5) \<and> (\<exists>e \<in> set ?es. snd e \<le> ?t)"
    from a have a1: "\<forall>c \<in> set ?cs. \<not> euclideanDistance c \<le> ?t * 1.5" ..
    from a have a2: "\<exists>e \<in> set ?es. snd e \<le> ?t" ..
    from a1 a2 show "\<exists>e \<in> set ?es. ?r = (True, fst e) \<and> isEdge (fst e) \<and> snd e \<le> ?t
                  \<and> (\<forall>e' \<in> set ?es. snd e' \<le> ?t \<longrightarrow> snd e \<le> snd e')"
      by (rule edge)
  next
    assume a: "(\<forall>c \<in> set ?cs. \<not> euclideanDistance c \<le> ?t * 1.5) \<and> (\<forall>e \<in> set ?es. \<not> snd e \<le> ?t)"
    from a have a1: "\<forall>c \<in> set ?cs. \<not> euclideanDistance c \<le> ?t * 1.5" ..
    from a have a2: "\<forall>e \<in> set ?es. \<not> snd e \<le> ?t" ..
    show "?r = (False, SnapEdgeNone)"
      using neither [OF a1 a2] .
  qed
qed

theorem snap_candidate_choice_witness:
  "candidateThreshold 1 exampleDragged = 17
   \<and> candidateCorners 1 \<lparr>X = 805, Y = -105\<rparr> exampleDragged
        = [(SnapEdgeTopRight, -5, 5), (SnapEdgeBottomRight, -5, 1005),
           (SnapEdgeBottomLeft, -1005, 1005), (SnapEdgeTopLeft, -1005, 5)]
   \<and> squaresFit (SnapEdgeTopRight, -5, 5) \<and> squaresFit (SnapEdgeBottomRight, -5, 1005)
   \<and> squaresFit (SnapEdgeBottomLeft, -1005, 1005) \<and> squaresFit (SnapEdgeTopLeft, -1005, 5)
   \<and> candidateEdges 1 \<lparr>X = 805, Y = -105\<rparr> exampleDragged
        = [(SnapEdgeRight, 5), (SnapEdgeLeft, 1005), (SnapEdgeBottom, 1005), (SnapEdgeTop, 5)]
   \<and> fst (shouldSnapToMainWindow 1 \<lparr>X = 805, Y = -105\<rparr> 0 (1000 * millisecond) exampleDragged)
        = (True, SnapEdgeTopRight)
   \<and> fst (shouldSnapToMainWindow 1 \<lparr>X = 805, Y = 300\<rparr> 0 (1000 * millisecond) exampleDragged)
        = (True, SnapEdgeRight)
   \<and> fst (shouldSnapToMainWindow 1 \<lparr>X = 0, Y = 0\<rparr> 0 (1000 * millisecond) exampleDragged)
        = (False, SnapEdgeNone)"
proof -
  have t: "\<not> 1000 * millisecond - 0 < debounceThreshold"
    by (simp add: debounceThreshold_def millisecond_def)
  note thr = exampleDragged_candidates(2)
  have c1: "candidateCorners 1 \<lparr>X = 805, Y = -105\<rparr> exampleDragged
        = [(SnapEdgeTopRight, -5, 5), (SnapEdgeBottomRight, -5, 1005),
           (SnapEdgeBottomLeft, -1005, 1005), (SnapEdgeTopLeft, -1005, 5)]"
    by (simp add: exampleDragged_lists cornerChecks_def)
  have e1: "candidateEdges 1 \<lparr>X = 805, Y = -105\<rparr> exampleDragged
        = [(SnapEdgeRight, 5), (SnapEdgeLeft, 1005), (SnapEdgeBottom, 1005), (SnapEdgeTop, 5)]"
    by (simp add: exampleDragged_lists edgeChecks_def)
  have c3: "candidateCorners 1 \<lparr>X = 0, Y = 0\<rparr> exampleDragged
        = [(SnapEdgeTopRight, 800, -100), (SnapEdgeBottomRight, 800, 900),
           (SnapEdgeBottomLeft, -200, 900), (SnapEdgeTopLeft, -200, -100)]"
    by (simp add: exampleDragged_lists cornerChecks_def)
  have e3: "candidateEdges 1 \<lparr>X = 0, Y = 0\<rparr> exampleDragged
        = [(SnapEdgeRight, 800), (SnapEdgeLeft, 200), (SnapEdgeBottom, 900), (SnapEdgeTop, 100)]"
    by (simp add: exampleDragged_lists edgeChecks_def)
  have f1: "squaresFit (SnapEdgeTopRight, -5, 5)" "squaresFit (SnapEdgeBottomRight, -5, 1005)"
    "squaresFit (SnapEdgeBottomLeft, -1005, 1005)" "squaresFit (SnapEdgeTopLeft, -1005, 5)"
    by (simp_all add: squaresFit_def)
  have g1: "\<forall>c \<in> set (candidateCorners 1 \<lparr>X = 805, Y = -105\<rparr> exampleDragged). squaresFit c"
    unfolding c1 by (simp add: f1)
  have g2: "\<forall>c \<in> set (candidateCorners 1 \<lparr>X = 805, Y = 300\<rparr> exampleDragged). squaresFit c"
    unfolding exampleDragged_candidates by (simp add: squaresFit_def)
  have g3: "\<forall>c \<in> set (candidateCorners 1 \<lparr>X = 0, Y = 0\<rparr> exampleDragged). squaresFit c"
    unfolding c3 by (simp add: squaresFit_def)
  note a = snap_candidate_choice [OF t g1]
  have r1: "fst (shouldSnapToMainWindow 1 \<lparr>X = 805, Y = -105\<rparr> 0 (1000 * millisecond) exampleDragged)
        = (True, SnapEdgeTopRight)"
    using a unfolding c1 e1 thr
    by (simp add: euclideanDistance_le euclideanDistance_mult_le power2_eq_square)
  note b = snap_candidate_choice [OF t g2]
  have r2: "fst (shouldSnapToMainWindow 1 \<lparr>X = 805, Y = 300\<rparr> 0 (1000 * millisecond) exampleDragged)
        = (True, SnapEdgeRight)"
    using b unfolding exampleDragged_candidates
    by (simp add: euclideanDistance_le euclideanDistance_mult_le power2_eq_square)
  note c = snap_candidate_choice [OF t g3]
  have r3: "fst (shouldSnapToMainWindow 1 \<lparr>X = 0, Y = 0\<rparr> 0 (1000 * millisecond) exampleDragged)
        = (False, SnapEdgeNone)"
    using c unfolding c3 e3 thr
    by (simp add: euclideanDistance_le euclideanDistance_mult_le power2_eq_square)
  from thr c1 f1 e1 r1 r2 r3 show ?thesis by blast
qed

section \<open>The primary window moves\<close>

lemma exampleNudged_eq:
  "exampleNudged =
     \<lparr> mainWindow = Some (\<lparr>X = 100, Y = 100\<rparr>, (700, 800)),
       winPosition = (\<lambda>documentID. \<lparr>X = 0, Y = 0\<rparr>)(1 := \<lparr>X = 805, Y = 300\<rparr>),
       winSize = (\<lambda>documentID. (300, 200)),
       snapEnabled = True, baseThresholdRatio = 0.025, minThreshold = 8, maxThreshold = 40,
       lastMainWindowPos = \<lparr>X = 100, Y = 100\<rparr>, lastMainWindowSize = (700, 800),
       managedWindows = [1 \<mapsto> \<lparr>DocumentID = 1, IsSnapped = True, SnapOffset = \<lparr>X = 700, Y = 200\<rparr>,
                                  SnapEdge = SnapEdgeRight, LastPos = \<lparr>X = 805, Y = 300\<rparr>,
                                  MoveTime = 2000000000\<rparr>],
       windowRefs = {1}, windowSizeCache = [1 \<mapsto> (300, 200)],
       isUpdatingPosition = [1 \<mapsto> False] \<rparr>"
proof -
  let ?s = "userMoves 1 805 300 exampleSnapped"
  let ?w = "\<lparr>DocumentID = 1, IsSnapped = True, SnapOffset = \<lparr>X = 700, Y = 200\<rparr>,
             SnapEdge = SnapEdgeRight, LastPos = \<lparr>X = 800, Y = 300\<rparr>,
             MoveTime = 1000000000\<rparr>"
  have f: "snapEnabled ?s" "isUpdatingPosition ?s 1 \<noteq> Some True"
    "managedWindows ?s 1 = Some ?w" "winPosition ?s 1 = \<lparr>X = 805, Y = 300\<rparr>"
    "lastMainWindowPos ?s = \<lparr>X = 100, Y = 100\<rparr>" "calculateAdaptiveThreshold ?s = 17"
    by (simp_all add: userMoves_def exampleSnapped_eq calculateAdaptiveThreshold_def go_int_def)
  have moved: "\<not> (X (winPosition ?s 1) = X (LastPos ?w) \<and> Y (winPosition ?s 1) = Y (LastPos ?w))"
    by (simp add: f)
  have sn: "IsSnapped ?w" by simp
  have h: "handleSnappedWindow (?w\<lparr>MoveTime := 2000 * millisecond\<rparr>) \<lparr>X = 805, Y = 300\<rparr>
             (2000 * millisecond) ?s = ?w\<lparr>MoveTime := 2000 * millisecond\<rparr>"
    by (simp add: handleSnappedWindow_def f)
  show ?thesis
    unfolding exampleNudged_def onChildWindowMoved_snapped [OF f(1,2,3) moved sn] f(4) h
    by (simp add: userMoves_def exampleSnapped_eq millisecond_def)
qed

lemma examplePrimaryMoved:
  "snapEnabled (primaryMoves 130 115 exampleNudged)"
  "mainWindow (primaryMoves 130 115 exampleNudged) = Some (\<lparr>X = 130, Y = 115\<rparr>, (700, 800))"
  "winPosition (primaryMoves 130 115 exampleNudged) 1 = \<lparr>X = 805, Y = 300\<rparr>"
  "windowRefs (primaryMoves 130 115 exampleNudged) = {1}"
  "managedWindows (primaryMoves 130 115 exampleNudged) 1
     = Some \<lparr>DocumentID = 1, IsSnapped = True, SnapOffset = \<lparr>X = 700, Y = 200\<rparr>,
             SnapEdge = SnapEdgeRight, LastPos = \<lparr>X = 805, Y = 300\<rparr>,
             MoveTime = 2000000000\<rparr>"
  by (simp_all add: primaryMoves_def exampleNudged_eq)

lemma reachable_exampleNudged: "reachable exampleNudged"
  unfolding exampleNudged_def
  by (intro reachable.child_moved reachable_userMoves reachable_exampleSnapped)

text \<open>
  C4, as stated, fails: a snapped window that the user has nudged 5 pixels (within the
  threshold, so it stays snapped at \<open>(805, 300)\<close> while its expected position is
  \<open>(800, 300)\<close>) is moved to \<open>(830, 315)\<close> when the primary moves from \<open>(100, 100)\<close> to
  \<open>(130, 115)\<close>: it moves by \<open>(25, 15)\<close>, the primary by \<open>(30, 15)\<close>. The cache of the
  primary's geometry is current throughout.
\<close>

theorem nudged_window_moves_by_other_delta:
  "reachable exampleNudged
   \<and> map_option IsSnapped (managedWindows exampleNudged 1) = Some True
   \<and> snapEnabled (primaryMoves 130 115 exampleNudged)
   \<and> mainWindow exampleNudged = Some (\<lparr>X = 100, Y = 100\<rparr>, (700, 800))
   \<and> lastMainWindowPos exampleNudged = \<lparr>X = 100, Y = 100\<rparr>
   \<and> mainWindow (primaryMoves 130 115 exampleNudged) = Some (\<lparr>X = 130, Y = 115\<rparr>, (700, 800))
   \<and> winPosition (primaryMoves 130 115 exampleNudged) 1 = \<lparr>X = 805, Y = 300\<rparr>
   \<and> winPosition exampleFollowed 1 = \<lparr>X = 830, Y = 315\<rparr>
   \<and> X (winPosition exampleFollowed 1) - X (winPosition (primaryMoves 130 115 exampleNudged) 1)
        \<noteq> 130 - 100"
proof -
  have p: "winPosition exampleFollowed 1 = \<lparr>X = 830, Y = 315\<rparr>"
    unfolding exampleFollowed_def
    by (simp add: onMainWindowMoved_position [OF examplePrimaryMoved(1,2)] examplePrimaryMoved)
  have n: "map_option IsSnapped (managedWindows exampleNudged 1) = Some True"
    "mainWindow exampleNudged = Some (\<lparr>X = 100, Y = 100\<rparr>, (700, 800))"
    "lastMainWindowPos exampleNudged = \<lparr>X = 100, Y = 100\<rparr>"
    by (simp_all add: exampleNudged_eq)
  from p n reachable_exampleNudged examplePrimaryMoved show ?thesis by simp
qed

text \<open>
  C4, amended. The primary window, at \<open>oldPos\<close>, moves to \<open>(x, y)\<close> and its move event
  is handled with snapping enabled. The cached primary geometry is then the primary's,
  and every snapped tracked window is at \<open>(x, y) + SnapOffset\<close>, which is also its
  \<open>LastPos\<close>; a snapped window that was at \<open>oldPos + SnapOffset\<close> before the move has
  thereby moved by the same delta as the primary, \<open>(x, y) - oldPos\<close>. Unsnapped windows
  are not moved, their entries stay as they are, and the window-size cache is untouched.
\<close>

theorem primary_move_resyncs_snapped:
  fixes s :: system and x y :: int and now :: instant
    and oldPos :: WindowPosition and sz :: "int \<times> int"
  defines "after \<equiv> onMainWindowMoved now (primaryMoves x y s)"
  assumes "reachable s" and "snapEnabled s" and "mainWindow s = Some (oldPos, sz)"
  shows "mainWindow after = Some (\<lparr>X = x, Y = y\<rparr>, sz)
       \<and> lastMainWindowPos after = \<lparr>X = x, Y = y\<rparr>
       \<and> lastMainWindowSize after = sz
       \<and> windowSizeCache after = windowSizeCache s
       \<and> (\<forall>documentID windowInfo. managedWindows s documentID = Some windowInfo \<longrightarrow>
            (IsSnapped windowInfo \<longrightarrow>
               winPosition after documentID
                 = \<lparr>X = x + X (SnapOffset windowInfo), Y = y + Y (SnapOffset windowInfo)\<rparr>
               \<and> managedWindows after documentID
                 = Some (windowInfo\<lparr>LastPos := \<lparr>X = x + X (SnapOffset windowInfo),
                                                   Y = y + Y (SnapOffset windowInfo)\<rparr>\<rparr>)
               \<and> (winPosition s documentID
                     = \<lparr>X = X oldPos + X (SnapOffset windowInfo),
                        Y = Y oldPos + Y (SnapOffset windowInfo)\<rparr>
                   \<longrightarrow> X (winPosition after documentID) - X (winPosition s documentID)
                         = x - X oldPos
                       \<and> Y (winPosition after documentID) - Y (winPosition s documentID)
                         = y - Y oldPos))
            \<and> (\<not> IsSnapped windowInfo \<longrightarrow>
                 winPosition after documentID = winPosition s documentID
                 \<and> managedWindows after documentID = Some windowInfo))"
proof -
  let ?m = "primaryMoves x y s"
  have "reachable ?m" using assms(2) by (rule reachable_primaryMoves)
  then have "registryOk ?m" by (rule reachable_registryOk)
  then have refs: "dom (managedWindows ?m) = windowRefs ?m" by (simp add: registryOk_def)
  have on: "snapEnabled ?m" using assms(3) by (simp add: primaryMoves_def)
  have mw: "mainWindow ?m = Some (\<lparr>X = x, Y = y\<rparr>, sz)"
    using assms(4) by (simp add: primaryMoves_def)
  have same: "managedWindows ?m = managedWindows s" "winPosition ?m = winPosition s"
    "windowSizeCache ?m = windowSizeCache s"
    by (simp_all add: primaryMoves_def)
  note f = onMainWindowMoved_fields [OF on mw, of now]
  have each: "(IsSnapped windowInfo \<longrightarrow>
               winPosition after documentID
                 = \<lparr>X = x + X (SnapOffset windowInfo), Y = y + Y (SnapOffset windowInfo)\<rparr>
               \<and> managedWindows after documentID
                 = Some (windowInfo\<lparr>LastPos := \<lparr>X = x + X (SnapOffset windowInfo),
                                                   Y = y + Y (SnapOffset windowInfo)\<rparr>\<rparr>)
               \<and> (winPosition s documentID
                     = \<lparr>X = X oldPos + X (SnapOffset windowInfo),
                        Y = Y oldPos + Y (SnapOffset windowInfo)\<rparr>
                   \<longrightarrow> X (winPosition after documentID) - X (winPosition s documentID)
                         = x - X oldPos
                       \<and> Y (winPosition after documentID) - Y (winPosition s documentID)
                         = y - Y oldPos))
            \<and> (\<not> IsSnapped windowInfo \<longrightarrow>
                 winPosition after documentID = winPosition s documentID
                 \<and> managedWindows after documentID = Some windowInfo)"
    if w: "managedWindows s documentID = Some windowInfo" for documentID windowInfo
  proof -
    from w have w': "managedWindows ?m documentID = Some windowInfo" by (simp add: same)
    with refs have r: "documentID \<in> windowRefs ?m" by auto
    show ?thesis
      unfolding after_def
      by (simp add: onMainWindowMoved_position [OF on mw]
          onMainWindowMoved_entry [OF on mw] w' r same(2))
  qed
  have g: "mainWindow after = Some (\<lparr>X = x, Y = y\<rparr>, sz)"
    "lastMainWindowPos after = \<lparr>X = x, Y = y\<rparr>"
    "lastMainWindowSize after = sz"
    "windowSizeCache after = windowSizeCache s"
    unfolding after_def by (simp_all add: f mw same)
  show ?thesis
    using g each by blast
qed

theorem primary_move_resyncs_snapped_witness:
  "reachable exampleSnapped
   \<and> mainWindow exampleSnapped = Some (\<lparr>X = 100, Y = 100\<rparr>, (700, 800))
   \<and> managedWindows exampleSnapped 1
        = Some \<lparr>DocumentID = 1, IsSnapped = True, SnapOffset = \<lparr>X = 700, Y = 200\<rparr>,
                 SnapEdge = SnapEdgeRight, LastPos = \<lparr>X = 800, Y = 300\<rparr>,
                 MoveTime = 1000 * millisecond\<rparr>
   \<and> winPosition exampleSnapped 1 = \<lparr>X = 800, Y = 300\<rparr>
   \<and> winPosition (onMainWindowMoved (2500 * millisecond) (primaryMoves 130 115 exampleSnapped)) 1
        = \<lparr>X = 830, Y = 315\<rparr>
   \<and> mainWindow (onMainWindowMoved (2500 * millisecond) (primaryMoves 130 115 exampleSnapped))
        = Some (\<lparr>X = 130, Y = 115\<rparr>, (700, 800))
   \<and> lastMainWindowPos (onMainWindowMoved (2500 * millisecond) (primaryMoves 130 115 exampleSnapped))
        = \<lparr>X = 130, Y = 115\<rparr>
   \<and> map_option LastPos
        (managedWindows (onMainWindowMoved (2500 * millisecond) (primaryMoves 130 115 exampleSnapped)) 1)
        = Some \<lparr>X = 830, Y = 315\<rparr>
   \<and> X (winPosition (onMainWindowMoved (2500 * millisecond) (primaryMoves 130 115 exampleSnapped)) 1)
        - X (winPosition exampleSnapped 1) = 130 - 100
   \<and> Y (winPosition (onMainWindowMoved (2500 * millisecond) (primaryMoves 130 115 exampleSnapped)) 1)
        - Y (winPosition exampleSnapped 1) = 115 - 100
   \<and> reachable exampleDragged
   \<and> map_option IsSnapped (managedWindows exampleDragged 1) = Some False
   \<and> winPosition exampleDragged 1 = \<lparr>X = 805, Y = 300\<rparr>
   \<and> winPosition (onMainWindowMoved (2500 * millisecond) (primaryMoves 130 115 exampleDragged)) 1
        = \<lparr>X = 805, Y = 300\<rparr>
   \<and> managedWindows (onMainWindowMoved (2500 * millisecond) (primaryMoves 130 115 exampleDragged)) 1
        = managedWindows exampleDragged 1"
proof -
  let ?snapped = "\<lparr>DocumentID = 1, IsSnapped = True, SnapOffset = \<lparr>X = 700, Y = 200\<rparr>,
             SnapEdge = SnapEdgeRight, LastPos = \<lparr>X = 800, Y = 300\<rparr>,
             MoveTime = 1000 * millisecond\<rparr>"
  let ?fresh = "\<lparr>DocumentID = 1, IsSnapped = False, SnapOffset = \<lparr>X = 0, Y = 0\<rparr>,
             SnapEdge = SnapEdgeNone, LastPos = \<lparr>X = 0, Y = 0\<rparr>, MoveTime = 0\<rparr>"
  let ?a = "onMainWindowMoved (2500 * millisecond) (primaryMoves 130 115 exampleSnapped)"
  let ?b = "onMainWindowMoved (2500 * millisecond) (primaryMoves 130 115 exampleDragged)"
  have fa: "snapEnabled exampleSnapped"
    "mainWindow exampleSnapped = Some (\<lparr>X = 100, Y = 100\<rparr>, (700, 800))"
    "managedWindows exampleSnapped 1 = Some ?snapped"
    "winPosition exampleSnapped 1 = \<lparr>X = 800, Y = 300\<rparr>"
    by (simp_all add: exampleSnapped_eq millisecond_def)
  have fb: "snapEnabled exampleDragged"
    "mainWindow exampleDragged = Some (\<lparr>X = 100, Y = 100\<rparr>, (700, 800))"
    "managedWindows exampleDragged 1 = Some ?fresh"
    "winPosition exampleDragged 1 = \<lparr>X = 805, Y = 300\<rparr>"
    by (simp_all add: exampleDragged_eq)
  note ta = primary_move_resyncs_snapped [where x = 130 and y = 115
      and now = "2500 * millisecond", OF reachable_exampleSnapped fa(1,2)]
  note tb = primary_move_resyncs_snapped [where x = 130 and y = 115
      and now = "2500 * millisecond", OF reachable_exampleDragged fb(1,2)]
  from ta have a1: "mainWindow ?a = Some (\<lparr>X = 130, Y = 115\<rparr>, (700, 800))"
    "lastMainWindowPos ?a = \<lparr>X = 130, Y = 115\<rparr>"
    by blast+
  from ta fa(3) have a2: "winPosition ?a 1 = \<lparr>X = 830, Y = 315\<rparr>"
    and a3: "managedWindows ?a 1 = Some (?snapped\<lparr>LastPos := \<lparr>X = 830, Y = 315\<rparr>\<rparr>)"
    by auto
  from ta fa(3,4) have a4: "X (winPosition ?a 1) - X (winPosition exampleSnapped 1) = 130 - 100"
    "Y (winPosition ?a 1) - Y (winPosition exampleSnapped 1) = 115 - 100"
    by auto
  from tb fb(3) have b1: "winPosition ?b 1 = winPosition exampleDragged 1"
    and b2: "managedWindows ?b 1 = Some ?fresh"
    by auto
  have a5: "map_option LastPos (managedWindows ?a 1) = Some \<lparr>X = 830, Y = 315\<rparr>"
    by (simp add: a3)
  have b3: "map_option IsSnapped (managedWindows exampleDragged 1) = Some False"
    by (simp add: fb(3))
  have b4: "winPosition ?b 1 = \<lparr>X = 805, Y = 300\<rparr>"
    "managedWindows ?b 1 = managedWindows exampleDragged 1"
    by (simp_all add: b1 b2 fb)
  from reachable_exampleSnapped reachable_exampleDragged fa(2,3,4) a1 a2 a5 a4 b3 fb(4) b4
  show ?thesis by blast
qed

end
